theory Spec2Isabelle
  imports Complex_Main
begin

section \<open>Python values and errors\<close>

text \<open>
  The chart renderers of \<^verbatim>\<open>report_with_api.py\<close> compute with Python numbers. They are
  modelled as exact rationals: comparison, \<^verbatim>\<open>max\<close>, \<^verbatim>\<open>abs\<close> and \<^verbatim>\<open>int()\<close> are
  exact on finite floats as well, while the binary rounding of \<^verbatim>\<open>+\<close>, \<^verbatim>\<open>*\<close> and \<^verbatim>\<open>/\<close>,
  NaN and the infinities are outside the model. Every statement of the source that can
  raise on numbers is a branch of the model.
\<close>

datatype py_error =
    ZeroDivisionError | ValueError | KeyError string | TypeError | IndexError
  | EmptyDataError | OtherError string

definition sbind :: "'e + 'a \<Rightarrow> ('a \<Rightarrow> 'e + 'b) \<Rightarrow> 'e + 'b" where
  "sbind r f = (case r of Inl e \<Rightarrow> Inl e | Inr v \<Rightarrow> f v)"

text \<open>A \<^verbatim>\<open>for\<close> loop whose body can raise: it stops at the first error.\<close>

fun map_res :: "('a \<Rightarrow> 'e + 'b) \<Rightarrow> 'a list \<Rightarrow> 'e + 'b list" where
  "map_res f [] = Inr []"
| "map_res f (x # xs) = sbind (f x) (\<lambda>y. sbind (map_res f xs) (\<lambda>ys. Inr (y # ys)))"

text \<open>\<^verbatim>\<open>a / b\<close> raises on a zero divisor.\<close>

definition py_truediv :: "rat \<Rightarrow> rat \<Rightarrow> py_error + rat" where
  "py_truediv a b = (if b = 0 then Inl ZeroDivisionError else Inr (a / b))"

text \<open>\<^verbatim>\<open>max(...)\<close> over a sequence raises \<^verbatim>\<open>ValueError\<close> when the sequence is empty.\<close>

definition py_max :: "rat list \<Rightarrow> py_error + rat" where
  "py_max xs = (case xs of [] \<Rightarrow> Inl ValueError | x # ys \<Rightarrow> Inr (fold max ys x))"

text \<open>\<^verbatim>\<open>int(x)\<close> truncates towards zero.\<close>

definition py_int :: "rat \<Rightarrow> int" where
  "py_int x = (if 0 \<le> x then floor x else ceiling x)"

text \<open>
  \<^verbatim>\<open>round(x, 2)\<close>: the nearest multiple of \<open>1/100\<close>, a tie going to the even one.
\<close>

definition round_half_even :: "rat \<Rightarrow> int" where
  "round_half_even x =
     (let f = floor x; r = x - of_int f
      in if r < 1 / 2 then f else if 1 / 2 < r then f + 1
         else if even f then f else f + 1)"

definition py_round2 :: "rat \<Rightarrow> rat" where
  "py_round2 x = of_int (round_half_even (x * 100)) / 100"

text \<open>\<^verbatim>\<open>d.get(key, default)\<close> on a dictionary.\<close>

definition dict_get :: "('k \<rightharpoonup> 'v) \<Rightarrow> 'k \<Rightarrow> 'v \<Rightarrow> 'v" where
  "dict_get d k dflt = (case d k of None \<Rightarrow> dflt | Some v \<Rightarrow> v)"

text \<open>\<^verbatim>\<open>d[key]\<close> raises \<^verbatim>\<open>KeyError\<close> on a missing key.\<close>

definition alist_item :: "(string \<times> 'v) list \<Rightarrow> string \<Rightarrow> py_error + 'v" where
  "alist_item d k = (case map_of d k of None \<Rightarrow> Inl (KeyError k) | Some v \<Rightarrow> Inr v)"

definition alist_get :: "('k \<times> 'v) list \<Rightarrow> 'k \<Rightarrow> 'v \<Rightarrow> 'v" where
  "alist_get d k dflt = (case map_of d k of None \<Rightarrow> dflt | Some v \<Rightarrow> v)"

section \<open>The markup of a chart\<close>

text \<open>
  The renderers build their result with f-strings. The model keeps the structure of that
  markup and the numbers in it: a text body is a literal or a formatted number
  (\<open>Fmt spec v suffix\<close> stands for \<^verbatim>\<open>f"{v:spec}suffix"\<close>, the empty \<open>spec\<close> for
  \<^verbatim>\<open>f"{v}suffix"\<close>), an element is one \<^verbatim>\<open><text>\<close>, \<^verbatim>\<open><line>\<close> or \<^verbatim>\<open><rect>\<close> with
  the attributes that vary. The attributes that are the same on every element
  (\<^verbatim>\<open>font-family\<close>, \<^verbatim>\<open>rx\<close>, \<^verbatim>\<open>ry\<close>) are left implicit. Strings are UTF-8 bytes.
\<close>

datatype text_body = Lit string | Fmt string rat string

datatype svg_elem =
    SvgText (text_x: rat) (text_y: rat) (font_size: string) (text_anchor: string)
            (text_fill: string) (font_weight: "string option") (body: text_body)
  | SvgLine (x1: rat) (y1: rat) (x2: rat) (y2: rat) (stroke: string) (stroke_width: string)
  | SvgRect (rect_x: rat) (rect_y: rat) (rect_width: rat) (rect_height: rat) (rect_fill: string)

text \<open>
  What a renderer returns: a literal piece of markup, or the \<^verbatim>\<open><div><svg>\<close> block with
  the style of the \<^verbatim>\<open>div\<close>, the width and height of the canvas and its elements.
\<close>

datatype html = Markup string | SvgChart string int int "svg_elem list"

definition Mutlu :: string where "Mutlu = ''Mutlu''"
definition Kizgin :: string where
  "Kizgin = ''K'' @ [CHR 0xC4, CHR 0xB1] @ ''zg'' @ [CHR 0xC4, CHR 0xB1] @ ''n''"
definition Igrenme :: string where
  "Igrenme = [CHR 0xC4, CHR 0xB0, CHR 0xC4, CHR 0x9F] @ ''renme''"
definition Korku :: string where "Korku = ''Korku''"
definition Uzgun :: string where
  "Uzgun = [CHR 0xC3, CHR 0x9C] @ ''zg'' @ [CHR 0xC3, CHR 0xBC] @ ''n''"
definition Saskin :: string where
  "Saskin = [CHR 0xC5, CHR 0x9E] @ ''a'' @ [CHR 0xC5, CHR 0x9F] @ ''k''
     @ [CHR 0xC4, CHR 0xB1] @ ''n''"
definition Dogal :: string where
  "Dogal = ''Do'' @ [CHR 0xC4, CHR 0x9F] @ ''al''"

definition labels_map :: "(string \<times> string) list" where
  "labels_map =
     [(''duygu_mutlu_%'', Mutlu), (''duygu_kizgin_%'', Kizgin),
      (''duygu_igrenme_%'', Igrenme), (''duygu_korku_%'', Korku),
      (''duygu_uzgun_%'', Uzgun), (''duygu_saskin_%'', Saskin),
      (''duygu_dogal_%'', Dogal)]"

definition colors :: "(string \<times> string) list" where
  "colors =
     [(Mutlu, ''#d4eac8''), (Kizgin, ''#e5b9b5''), (Igrenme, ''#d3cdd7''),
      (Korku, ''#a9b4c2''), (Uzgun, ''#b7d0e2''), (Saskin, ''#fdeac9''),
      (Dogal, ''#d8d8d8'')]"

definition emotion_keys_ordered :: "string list" where
  "emotion_keys_ordered =
     [''duygu_mutlu_%'', ''duygu_kizgin_%'', ''duygu_igrenme_%'', ''duygu_korku_%'',
      ''duygu_uzgun_%'', ''duygu_saskin_%'', ''duygu_dogal_%'']"

text \<open>\<^verbatim>\<open><p>G\<close>...\<^verbatim>\<open></p>\<close>, the message returned when there is nothing to draw.\<close>

definition no_data_html :: string where
  "no_data_html = ''<p>G'' @ [CHR 0xC3, CHR 0xB6] @ ''rselle'' @ [CHR 0xC5, CHR 0x9F]
     @ ''tirilecek duygu verisi bulunamad'' @ [CHR 0xC4, CHR 0xB1] @ ''.</p>''"

section \<open>The absolute chart: \<^verbatim>\<open>create_emotion_charts_html\<close>\<close>

text \<open>Lines 101 to 105: the entries of the keys present, in the order of the key list.\<close>

definition emotion_values_of :: "(string \<rightharpoonup> rat) \<Rightarrow> (string \<times> rat) list" where
  "emotion_values_of emotion_data =
     concat (map (\<lambda>key. case emotion_data key of
                           None \<Rightarrow> []
                         | Some v \<Rightarrow> [(alist_get labels_map key ''Bilinmeyen'',
                                       dict_get emotion_data key 0)])
                 emotion_keys_ordered)"

text \<open>Lines 140 to 150, the body of the loop over \<^verbatim>\<open>range(5)\<close>.\<close>

definition y_axis_label :: "rat \<Rightarrow> int \<Rightarrow> rat \<Rightarrow> nat \<Rightarrow> py_error + svg_elem list" where
  "y_axis_label max_value svg_height padding i =
     (let percent = of_nat i * 25
      in sbind (py_truediv percent max_value) (\<lambda>q.
           let y_val = of_int svg_height - padding - (q * (of_int svg_height - 2 * padding))
           in Inr [SvgText (padding - 10) (y_val + 5) ''10'' ''end'' ''#555'' None
                     (Fmt [] percent ''%''),
                   SvgLine padding y_val (padding + 5) y_val ''#ccc'' ''0.5'']))"

text \<open>Lines 152 to 175, the body of the loop over \<^verbatim>\<open>enumerate(emotion_values)\<close>.\<close>

definition draw_bar ::
  "rat \<Rightarrow> int \<Rightarrow> rat \<Rightarrow> rat \<Rightarrow> rat \<Rightarrow> rat \<Rightarrow> nat \<times> string \<times> rat \<Rightarrow> py_error + svg_elem list"
where
  "draw_bar max_value svg_height padding bar_width bar_spacing label_offset entry =
     (case entry of (i, name, v) \<Rightarrow>
        let x = padding + of_nat i * (bar_width + bar_spacing)
        in sbind (py_truediv v max_value) (\<lambda>q.
             let bar_height = q * (of_int svg_height - 2 * padding);
                 y = of_int svg_height - padding - bar_height;
                 fill_color = alist_get colors name ''#cccccc'';
                 text_y0 = y - label_offset;
                 text_y = (if text_y0 < 15 then y + 15 else text_y0);
                 text_fill = (if text_y0 < 15 then ''#333'' else ''#333'')
             in Inr [SvgRect x y bar_width bar_height fill_color,
                     SvgText (x + bar_width / 2) text_y ''12'' ''middle'' text_fill
                       (Some ''bold'') (Fmt ''.1f'' v ''%''),
                     SvgText (x + bar_width / 2) (of_int svg_height - padding + 20) ''11''
                       ''middle'' ''#555'' None (Lit name)]))"

definition create_emotion_charts_html :: "(string \<rightharpoonup> rat) \<Rightarrow> py_error + html" where
  "create_emotion_charts_html emotion_data =
     (let emotion_values = emotion_values_of emotion_data
      in if emotion_values = [] then Inr (Markup no_data_html)
         else
           let base_height = 250
           in sbind (py_max (map snd emotion_values)) (\<lambda>max_value0.
                let max_value = (if max_value0 < 5 then 5 else max_value0);
                    svg_height = py_int ((max_value / 100) * base_height) + 80;
                    svg_width = 600;
                    padding = 40;
                    bar_spacing = 15;
                    label_offset = 5;
                    num_bars = length emotion_values
                in sbind (py_truediv
                            (of_int svg_width - 2 * padding
                               - (of_nat num_bars - 1) * bar_spacing)
                            (of_nat num_bars)) (\<lambda>bar_width0.
                     let bar_width = (if bar_width0 \<le> 0 then 20 else bar_width0);
                         title = SvgText (of_int svg_width / 2) 25 ''12'' ''middle'' ''#333''
                                   (Some ''400'') (Lit ''Aday Duygu Analizi'');
                         axis = SvgLine padding (of_int svg_height - padding)
                                  (of_int svg_width - padding) (of_int svg_height - padding)
                                  ''#ccc'' ''1''
                     in sbind (map_res (y_axis_label max_value svg_height padding) [0..<5])
                          (\<lambda>labels.
                        sbind (map_res (draw_bar max_value svg_height padding bar_width
                                          bar_spacing label_offset)
                                 (enumerate 0 emotion_values)) (\<lambda>bars.
                        Inr (SvgChart ''text-align: center; margin: 20px auto; opacity: 0.6;''
                               svg_width svg_height
                               (title # axis # concat labels @ concat bars)))))))"

section \<open>The differential chart: \<^verbatim>\<open>create_emotion_charts_html_2\<close>\<close>

definition emotion_keys :: "string list" where
  "emotion_keys =
     [''duygu_mutlu_%'', ''duygu_kizgin_%'', ''duygu_igrenme_%'', ''duygu_korku_%'',
      ''duygu_uzgun_%'', ''duygu_saskin_%'', ''duygu_dogal_%'']"

definition avg_keys :: "string list" where
  "avg_keys =
     [''avg_duygu_mutlu_%'', ''avg_duygu_kizgin_%'', ''avg_duygu_igrenme_%'',
      ''avg_duygu_korku_%'', ''avg_duygu_uzgun_%'', ''avg_duygu_saskin_%'',
      ''avg_duygu_dogal_%'']"

text \<open>Lines 236 to 241, the body of the loop over \<^verbatim>\<open>zip(emotion_keys, avg_keys)\<close>.\<close>

definition diff_entry :: "(string \<rightharpoonup> rat) \<Rightarrow> string \<times> string \<Rightarrow> py_error + string \<times> rat" where
  "diff_entry emotion_data kk =
     (case kk of (key, avg_key) \<Rightarrow>
        sbind (alist_item labels_map key) (\<lambda>name.
          let val = dict_get emotion_data key 0;
              avg = dict_get emotion_data avg_key 0;
              diff = py_round2 (val - avg)
          in Inr (name, diff)))"

text \<open>Lines 278 to 290, the body of the loop over \<^verbatim>\<open>[-max_abs, 0, max_abs]\<close>.\<close>

definition y_axis_label_2 :: "rat \<Rightarrow> rat \<Rightarrow> rat \<Rightarrow> rat \<Rightarrow> rat \<Rightarrow> py_error + svg_elem list" where
  "y_axis_label_2 max_abs panel baseline_y padding perc =
     sbind (py_truediv perc max_abs) (\<lambda>q.
       let pos = baseline_y - q * panel
       in Inr [SvgText (padding - 10) (pos + 4) ''10'' ''end'' ''#555'' None
                 (Fmt ''.0f'' perc ''%''),
               SvgLine padding pos (padding + 5) pos ''#ccc'' ''0.5''])"

text \<open>Lines 293 to 318, the body of the loop over \<^verbatim>\<open>enumerate(diffs)\<close>.\<close>

definition draw_bar_2 ::
  "rat \<Rightarrow> rat \<Rightarrow> rat \<Rightarrow> rat \<Rightarrow> rat \<Rightarrow> rat \<Rightarrow> nat \<times> string \<times> rat \<Rightarrow> py_error + svg_elem list"
where
  "draw_bar_2 max_abs panel baseline_y padding bar_width bar_spacing item =
     (case item of (i, name, val) \<Rightarrow>
        let x = padding + of_nat i * (bar_width + bar_spacing)
        in sbind (py_truediv \<bar>val\<bar> max_abs) (\<lambda>q.
             let height = q * panel;
                 y = (if 0 \<le> val then baseline_y - height else baseline_y);
                 color = alist_get colors name ''#ccc'';
                 txt_y = (if 0 \<le> val then y - 5 else y + height + 15)
             in Inr [SvgRect x y bar_width height color,
                     SvgText (x + bar_width / 2) txt_y ''12'' ''middle'' ''#333''
                       (Some ''bold'') (Fmt ''+.1f'' val ''%''),
                     SvgText (x + bar_width / 2) (baseline_y + panel + 20) ''11''
                       ''middle'' ''#555'' None (Lit name)]))"

definition diff_title :: string where
  "diff_title = ''Aday Duygular'' @ [CHR 0xC4, CHR 0xB1] @ ''n'' @ [CHR 0xC4, CHR 0xB1]
     @ ''n Ortalamadan Fark'' @ [CHR 0xC4, CHR 0xB1]"

definition create_emotion_charts_html_2 :: "(string \<rightharpoonup> rat) \<Rightarrow> py_error + html" where
  "create_emotion_charts_html_2 emotion_data =
     sbind (map_res (diff_entry emotion_data) (zip emotion_keys avg_keys)) (\<lambda>diffs.
       if diffs = [] then Inr (Markup no_data_html)
       else
         sbind (py_max (map (\<lambda>d. \<bar>snd d\<bar>) diffs)) (\<lambda>max_abs0.
           let max_abs = (if max_abs0 < 5 then 5 else max_abs0);
               base_height = 250;
               padding = 40;
               panel = (max_abs / 100) * base_height;
               svg_height = py_int (panel * 2 + padding * 2);
               svg_width = 600;
               bar_spacing = 15;
               num_bars = length diffs
           in sbind (py_truediv
                       (of_int svg_width - 2 * padding - (of_nat num_bars - 1) * bar_spacing)
                       (of_nat num_bars)) (\<lambda>bar_width.
                let baseline_y = padding + panel;
                    title = SvgText (of_int svg_width / 2) 25 ''12'' ''middle'' ''#333''
                              (Some ''400'') (Lit diff_title);
                    zero = SvgLine padding baseline_y (of_int svg_width - padding) baseline_y
                             ''#ccc'' ''1''
                in sbind (map_res (y_axis_label_2 max_abs panel baseline_y padding)
                            [- max_abs, 0, max_abs]) (\<lambda>labels.
                   sbind (map_res (draw_bar_2 max_abs panel baseline_y padding bar_width
                                     bar_spacing)
                            (enumerate 0 diffs)) (\<lambda>bars.
                   Inr (SvgChart ''text-align:center;margin:20px auto;opacity:0.6;''
                          svg_width svg_height
                          (title # zero # concat labels @ concat bars)))))))"

section \<open>Document assembly: lines 777 to 812 of \<^verbatim>\<open>generate_report\<close>\<close>

text \<open>
  The document is the tree that \<^verbatim>\<open>BeautifulSoup(raw_html_content, "html.parser")\<close>
  returns: a tag has a name, its attributes in order and its children; a
  \<^verbatim>\<open>NavigableString\<close> (text, and a comment, which is a subclass of it) has its content.
  \<open>Soup hs\<close> stands for what \<^verbatim>\<open>BeautifulSoup(s, "html.parser")\<close> yields for the string
  \<open>s\<close> that concatenates the chart fragments \<open>hs\<close>, appended as a child. Its parsing
  is the library's. The markup of a chart holds no \<^verbatim>\<open>id\<close> attribute, no \<^verbatim>\<open>img\<close> and no
  text equal to the placeholder token, so the filters used below do not accept anything
  in it.
\<close>

datatype node =
    Tag string "(string \<times> string) list" "node list"
  | NavigableString string
  | Soup "html list"

text \<open>
  \<^verbatim>\<open>soup.find(...)\<close>: the first node, in document order, that the filter accepts.
\<close>

fun find_first :: "(node \<Rightarrow> bool) \<Rightarrow> node list \<Rightarrow> node option" where
  "find_first p [] = None"
| "find_first p (Tag n a cs # rest) =
     (if p (Tag n a cs) then Some (Tag n a cs)
      else case find_first p cs of
             Some t \<Rightarrow> Some t
           | None \<Rightarrow> find_first p rest)"
| "find_first p (NavigableString s # rest) =
     (if p (NavigableString s) then Some (NavigableString s) else find_first p rest)"
| "find_first p (Soup hs # rest) =
     (if p (Soup hs) then Some (Soup hs) else find_first p rest)"

text \<open>
  The object that \<^verbatim>\<open>find\<close> returned is mutated in place: in the tree, the first node
  that the filter accepts is replaced by the nodes \<open>f\<close> gives for it (none when it is
  extracted). \<open>None\<close> when no node is accepted.
\<close>

fun update_first :: "(node \<Rightarrow> bool) \<Rightarrow> (node \<Rightarrow> node list) \<Rightarrow> node list \<Rightarrow> node list option" where
  "update_first p f [] = None"
| "update_first p f (Tag n a cs # rest) =
     (if p (Tag n a cs) then Some (f (Tag n a cs) @ rest)
      else case update_first p f cs of
             Some cs' \<Rightarrow> Some (Tag n a cs' # rest)
           | None \<Rightarrow> map_option ((#) (Tag n a cs)) (update_first p f rest))"
| "update_first p f (NavigableString s # rest) =
     (if p (NavigableString s) then Some (f (NavigableString s) @ rest)
      else map_option ((#) (NavigableString s)) (update_first p f rest))"
| "update_first p f (Soup hs # rest) =
     (if p (Soup hs) then Some (f (Soup hs) @ rest)
      else map_option ((#) (Soup hs)) (update_first p f rest))"

definition mutate_first :: "(node \<Rightarrow> bool) \<Rightarrow> (node \<Rightarrow> node) \<Rightarrow> node list \<Rightarrow> node list" where
  "mutate_first p f soup =
     (case update_first p (\<lambda>x. [f x]) soup of None \<Rightarrow> soup | Some soup' \<Rightarrow> soup')"

text \<open>\<^verbatim>\<open>find(id=ident)\<close> accepts a tag whose \<^verbatim>\<open>id\<close> attribute is \<open>ident\<close>.\<close>

fun has_id :: "string \<Rightarrow> node \<Rightarrow> bool" where
  "has_id ident (Tag n a cs) = (map_of a ''id'' = Some ident)"
| "has_id ident (NavigableString s) = False"
| "has_id ident (Soup hs) = False"

text \<open>\<^verbatim>\<open>find(text=s)\<close> accepts a string node whose whole content is \<open>s\<close>.\<close>

fun is_text :: "string \<Rightarrow> node \<Rightarrow> bool" where
  "is_text s (NavigableString t) = (t = s)"
| "is_text s (Tag n a cs) = False"
| "is_text s (Soup hs) = False"

text \<open>\<^verbatim>\<open>tag.clear()\<close> and \<^verbatim>\<open>tag.append(child)\<close>.\<close>

fun clear :: "node \<Rightarrow> node" where
  "clear (Tag n a cs) = Tag n a []"
| "clear x = x"

fun append_child :: "node \<Rightarrow> node \<Rightarrow> node" where
  "append_child c (Tag n a cs) = Tag n a (cs @ [c])"
| "append_child c x = x"

text \<open>\<^verbatim>\<open>tag[key] = value\<close>: the value of a present attribute is replaced, a new one goes last.\<close>

fun attr_set :: "(string \<times> string) list \<Rightarrow> string \<Rightarrow> string \<Rightarrow> (string \<times> string) list" where
  "attr_set [] k v = [(k, v)]"
| "attr_set ((k', v') # a) k v = (if k' = k then (k, v) # a else (k', v') # attr_set a k v)"

text \<open>Lines 777 to 787.\<close>

definition insert_charts :: "(string \<rightharpoonup> rat) \<Rightarrow> node list \<Rightarrow> py_error + node list" where
  "insert_charts current_row_data soup =
     (case find_first (has_id ''bar-chart-placeholder'') soup of
        None \<Rightarrow> Inr soup
      | Some bar_chart_placeholder \<Rightarrow>
          sbind (create_emotion_charts_html current_row_data) (\<lambda>abs_chart_html.
          sbind (create_emotion_charts_html_2 current_row_data) (\<lambda>diff_chart_html.
          Inr (mutate_first (has_id ''bar-chart-placeholder'')
                 (\<lambda>t. append_child (Soup [abs_chart_html, diff_chart_html]) (clear t))
                 soup))))"

text \<open>
  Lines 789 to 806. \<^verbatim>\<open>select_one("#header_logo img")\<close> is the first \<^verbatim>\<open>img\<close> tag, in
  document order, below a tag whose \<^verbatim>\<open>id\<close> is \<^verbatim>\<open>header_logo\<close>; \<open>inside\<close> tells that such
  an ancestor has been passed. The result of \<^verbatim>\<open>get_image_base64("logo.png")\<close> is the
  parameter \<open>logo_base64\<close>, empty when the file cannot be read.
\<close>

fun set_header_img :: "bool \<Rightarrow> string \<Rightarrow> node list \<Rightarrow> node list option" where
  "set_header_img inside src [] = None"
| "set_header_img inside src (Tag n a cs # rest) =
     (if inside \<and> n = ''img'' then Some (Tag n (attr_set a ''src'' src) cs # rest)
      else case set_header_img (inside \<or> map_of a ''id'' = Some ''header_logo'') src cs of
             Some cs' \<Rightarrow> Some (Tag n a cs' # rest)
           | None \<Rightarrow> map_option ((#) (Tag n a cs)) (set_header_img inside src rest))"
| "set_header_img inside src (x # rest) = map_option ((#) x) (set_header_img inside src rest)"

definition watermark_alt :: string where
  "watermark_alt = ''Deepwork Logo Filigran'' @ [CHR 0xC4, CHR 0xB1]"

definition set_logo :: "string \<Rightarrow> node list \<Rightarrow> node list" where
  "set_logo logo_base64 soup =
     (if logo_base64 \<noteq> [] then
        let logo_src = ''data:image/png;base64,'' @ logo_base64;
            soup1 = (case set_header_img False logo_src soup of
                       None \<Rightarrow> soup
                     | Some soup' \<Rightarrow> soup')
        in mutate_first (has_id ''watermark-placeholder'')
             (append_child (Tag ''img'' [(''src'', logo_src), (''alt'', watermark_alt)] []))
             soup1
      else soup)"

text \<open>Lines 808 to 812.\<close>

definition uygunluk_token :: string where
  "uygunluk_token = ''{{uygunluk_degerlendirmesi_bolumu}}''"

definition remove_uygunluk :: "int \<Rightarrow> node list \<Rightarrow> node list" where
  "remove_uygunluk tip soup =
     (if tip = 1 then
        (case find_first (is_text uygunluk_token) soup of
           None \<Rightarrow> soup
         | Some uygunluk_placeholder \<Rightarrow>
             (case update_first (is_text uygunluk_token) (\<lambda>x. []) soup of
                None \<Rightarrow> soup
              | Some soup' \<Rightarrow> soup'))
      else soup)"

definition assemble :: "string \<Rightarrow> (string \<rightharpoonup> rat) \<Rightarrow> int \<Rightarrow> node list \<Rightarrow> py_error + node list" where
  "assemble logo_base64 current_row_data tip soup =
     sbind (insert_charts current_row_data soup) (\<lambda>soup1.
       Inr (remove_uygunluk tip (set_logo logo_base64 soup1)))"

text \<open>The texts of a document, in document order: what \<^verbatim>\<open>prettify\<close> writes between the tags.\<close>

fun strings_of :: "node list \<Rightarrow> string list" where
  "strings_of [] = []"
| "strings_of (Tag n a cs # rest) = strings_of cs @ strings_of rest"
| "strings_of (NavigableString s # rest) = s # strings_of rest"
| "strings_of (Soup hs # rest) = strings_of rest"

section \<open>The endpoint: input validation and the error handlers of \<^verbatim>\<open>generate_report\<close>\<close>

text \<open>
  An exception is a Python error or FastAPI's \<^verbatim>\<open>HTTPException\<close> with its status code
  and its detail. The details are the five messages of the source; the last one embeds
  \<^verbatim>\<open>str(e)\<close> of the exception that was caught.
\<close>

datatype exn = Raised py_error | HTTPException nat http_detail
and http_detail =
    BadFormat
  | MissingColumns "string list"
  | NoRows
  | EmptyFile
  | ServerError exn

text \<open>
  What \<^verbatim>\<open>pd.read_csv\<close> returns: the column labels and the rows. A cell is a number, a
  missing value or a text.
\<close>

datatype cell = Num rat | NaN | Str string

record dataframe =
  columns :: "string list"
  rows :: "cell list list"

datatype pyval = VCell cell | VInt int | VQA "(cell \<times> cell) list"

definition required_columns :: "string list" where
  "required_columns =
     [''kisi_adi'', ''mulakat_adi'', ''llm_skoru'',
      ''duygu_mutlu_%'', ''duygu_kizgin_%'', ''duygu_igrenme_%'', ''duygu_korku_%'',
      ''duygu_uzgun_%'', ''duygu_saskin_%'', ''duygu_dogal_%'',
      ''ekran_disi_sure_sn'', ''ekran_disi_sayisi'', ''soru'', ''cevap'', ''tip'']"

definition endswith :: "string \<Rightarrow> string \<Rightarrow> bool" where
  "endswith s suf = (take (length suf) (rev s) = rev suf)"

definition lift_py :: "py_error + 'a \<Rightarrow> exn + 'a" where
  "lift_py r = (case r of Inl e \<Rightarrow> Inl (Raised e) | Inr v \<Rightarrow> Inr v)"

text \<open>\<^verbatim>\<open>row[col]\<close> on the first row, \<^verbatim>\<open>round(x, 2)\<close> and \<^verbatim>\<open>int(x)\<close> on a cell.\<close>

definition row_item :: "(string \<rightharpoonup> cell) \<Rightarrow> string \<Rightarrow> py_error + cell" where
  "row_item row col = (case row col of None \<Rightarrow> Inl (KeyError col) | Some c \<Rightarrow> Inr c)"

fun round_cell :: "cell \<Rightarrow> py_error + cell" where
  "round_cell (Num x) = Inr (Num (py_round2 x))"
| "round_cell NaN = Inr NaN"
| "round_cell (Str s) = Inl TypeError"

text \<open>\<open>int_str\<close> is Python's \<^verbatim>\<open>int\<close> on a text: \<open>None\<close> where it raises \<^verbatim>\<open>ValueError\<close>.\<close>

fun int_cell :: "(string \<Rightarrow> int option) \<Rightarrow> cell \<Rightarrow> py_error + int" where
  "int_cell int_str (Num x) = Inr (py_int x)"
| "int_cell int_str NaN = Inl ValueError"
| "int_cell int_str (Str s) = (case int_str s of None \<Rightarrow> Inl ValueError | Some i \<Rightarrow> Inr i)"

text \<open>
  Lines 731 to 756: the entries of \<^verbatim>\<open>current_row_data\<close> in the order in which the
  dictionary display evaluates them, each with the conversion applied to its column.
\<close>

datatype conv = Raw | Round2 | ToInt | QA

definition current_row_entries :: "(string \<times> conv) list" where
  "current_row_entries =
     [(''kisi_adi'', Raw), (''mulakat_adi'', Raw), (''llm_skoru'', Round2),
      (''duygu_mutlu_%'', Round2), (''avg_duygu_mutlu_%'', Round2),
      (''duygu_kizgin_%'', Round2), (''avg_duygu_kizgin_%'', Round2),
      (''duygu_igrenme_%'', Round2), (''avg_duygu_igrenme_%'', Round2),
      (''duygu_korku_%'', Round2), (''avg_duygu_korku_%'', Round2),
      (''duygu_uzgun_%'', Round2), (''avg_duygu_uzgun_%'', Round2),
      (''duygu_saskin_%'', Round2), (''avg_duygu_saskin_%'', Round2),
      (''duygu_dogal_%'', Round2), (''avg_duygu_dogal_%'', Round2),
      (''ekran_disi_sure_sn'', Round2), (''avg_ekran_disi_sure_sn'', Round2),
      (''ekran_disi_sayisi'', ToInt), (''avg_ekran_disi_sayisi'', ToInt),
      (''soru_cevap'', QA), (''tip'', ToInt), (''avg_llm_skoru'', Round2)]"

fun row_entry ::
  "(string \<Rightarrow> int option) \<Rightarrow> (string \<rightharpoonup> cell) \<Rightarrow> string \<times> conv \<Rightarrow> py_error + string \<times> pyval"
where
  "row_entry int_str row (key, Raw) = sbind (row_item row key) (\<lambda>c. Inr (key, VCell c))"
| "row_entry int_str row (key, Round2) =
     sbind (row_item row key) (\<lambda>c. sbind (round_cell c) (\<lambda>r. Inr (key, VCell r)))"
| "row_entry int_str row (key, ToInt) =
     sbind (row_item row key) (\<lambda>c. sbind (int_cell int_str c) (\<lambda>i. Inr (key, VInt i)))"
| "row_entry int_str row (key, QA) =
     sbind (row_item row ''soru'') (\<lambda>q. sbind (row_item row ''cevap'') (\<lambda>a.
       Inr (key, VQA [(q, a)])))"

text \<open>
  Lines 698 to 835, the body of the \<^verbatim>\<open>try\<close>. \<open>read_csv\<close> is the outcome of
  \<^verbatim>\<open>pd.read_csv\<close> on the uploaded bytes; \<open>rest\<close> stands for lines 758 to 835, which
  build the prompt, call the model, assemble the document and render the PDF.
\<close>

definition generate_report_body ::
  "(string \<Rightarrow> int option) \<Rightarrow> ((string \<times> pyval) list \<Rightarrow> exn + 'r) \<Rightarrow> exn + dataframe \<Rightarrow> exn + 'r"
where
  "generate_report_body int_str rest read_csv =
     sbind read_csv (\<lambda>df.
       if \<not> list_all (\<lambda>col. col \<in> set (columns df)) required_columns then
         let missing_cols = filter (\<lambda>col. col \<notin> set (columns df)) required_columns
         in Inl (HTTPException 400 (MissingColumns missing_cols))
       else if columns df = [] \<or> rows df = [] then Inl (HTTPException 400 NoRows)
       else
         sbind (case rows df of [] \<Rightarrow> Inl (Raised IndexError) | r # _ \<Rightarrow> Inr r) (\<lambda>r.
           let row = map_of (zip (columns df) r)
           in sbind (lift_py (map_res (row_entry int_str row) current_row_entries))
                (\<lambda>current_row_data. rest current_row_data)))"

text \<open>
  Lines 692 to 696 and the handlers of lines 837 to 844: \<^verbatim>\<open>EmptyDataError\<close> first, then
  \<^verbatim>\<open>except Exception\<close>, which every other exception of the body matches.
\<close>

definition generate_report ::
  "(string \<Rightarrow> int option) \<Rightarrow> ((string \<times> pyval) list \<Rightarrow> exn + 'r) \<Rightarrow> string \<Rightarrow> exn + dataframe
     \<Rightarrow> exn + 'r"
where
  "generate_report int_str rest filename read_csv =
     (if \<not> endswith filename ''.csv'' then Inl (HTTPException 400 BadFormat)
      else case generate_report_body int_str rest read_csv of
             Inr response \<Rightarrow> Inr response
           | Inl (Raised EmptyDataError) \<Rightarrow> Inl (HTTPException 400 EmptyFile)
           | Inl e \<Rightarrow> Inl (HTTPException 500 (ServerError e)))"

section \<open>Reading a chart\<close>

text \<open>What the statements below read off a rendered result.\<close>

fun chart_elems :: "html \<Rightarrow> svg_elem list" where
  "chart_elems (Markup s) = []"
| "chart_elems (SvgChart style w h es) = es"

definition rects :: "svg_elem list \<Rightarrow> svg_elem list" where
  "rects es = filter is_SvgRect es"

definition lines :: "svg_elem list \<Rightarrow> svg_elem list" where
  "lines es = filter is_SvgLine es"

fun lit_of :: "svg_elem \<Rightarrow> string list" where
  "lit_of (SvgText x y fs ta fl fw (Lit s)) = [s]"
| "lit_of e = []"

fun has_fmt :: "string \<Rightarrow> svg_elem \<Rightarrow> bool" where
  "has_fmt spec (SvgText x y fs ta fl fw (Fmt sp v suffix)) = (sp = spec)"
| "has_fmt spec e = False"

text \<open>The literal texts, and the texts that show a number formatted with \<open>spec\<close>.\<close>

definition lit_labels :: "svg_elem list \<Rightarrow> string list" where
  "lit_labels es = concat (map lit_of es)"

definition fmt_labels :: "string \<Rightarrow> svg_elem list \<Rightarrow> svg_elem list" where
  "fmt_labels spec es = filter (has_fmt spec) es"

section \<open>The quantities of the specification\<close>

text \<open>
  The canonical keys present in a record and their values, in canonical order, and the
  scale \<open>effectiveMax = max(5, max(values))\<close> of the absolute chart.
\<close>

definition present_keys :: "(string \<rightharpoonup> rat) \<Rightarrow> string list" where
  "present_keys d = filter (\<lambda>k. k \<in> dom d) emotion_keys_ordered"

definition present_values :: "(string \<rightharpoonup> rat) \<Rightarrow> rat list" where
  "present_values d = map (\<lambda>k. dict_get d k 0) (present_keys d)"

definition effectiveMax :: "(string \<rightharpoonup> rat) \<Rightarrow> rat" where
  "effectiveMax d = max 5 (Max (set (present_values d)))"

text \<open>
  The differences \<open>round(value - average, 2)\<close> of the seven canonical keys, a missing
  entry counting as 0, the scale \<open>maxAbs = max(5, max |diff|)\<close> of the differential
  chart, its panel height and its zero baseline.
\<close>

definition spec_diffs :: "(string \<rightharpoonup> rat) \<Rightarrow> rat list" where
  "spec_diffs d =
     map (\<lambda>(k, ak). py_round2 (dict_get d k 0 - dict_get d ak 0)) (zip emotion_keys avg_keys)"

definition maxAbs :: "(string \<rightharpoonup> rat) \<Rightarrow> rat" where
  "maxAbs d = max 5 (Max (set (map abs (spec_diffs d))))"

definition panel_of :: "(string \<rightharpoonup> rat) \<Rightarrow> rat" where
  "panel_of d = maxAbs d / 100 * 250"

definition baseline_of :: "(string \<rightharpoonup> rat) \<Rightarrow> rat" where
  "baseline_of d = 40 + panel_of d"

section \<open>The loop bodies as element lists\<close>

text \<open>
  The elements that one round of each drawing loop appends when its division succeeds,
  with the constants of the source filled in.
\<close>

definition tick_elems :: "rat \<Rightarrow> int \<Rightarrow> nat \<Rightarrow> svg_elem list" where
  "tick_elems m h i =
     [SvgText 30 (of_int h - 40 - (of_nat i * 25 / m) * (of_int h - 2 * 40) + 5)
        ''10'' ''end'' ''#555'' None (Fmt [] (of_nat i * 25) ''%''),
      SvgLine 40 (of_int h - 40 - (of_nat i * 25 / m) * (of_int h - 2 * 40)) 45
        (of_int h - 40 - (of_nat i * 25 / m) * (of_int h - 2 * 40)) ''#ccc'' ''0.5'']"

definition bar_elems :: "rat \<Rightarrow> int \<Rightarrow> rat \<Rightarrow> nat \<times> string \<times> rat \<Rightarrow> svg_elem list" where
  "bar_elems m h w e = (case e of (i, name, v) \<Rightarrow>
     [SvgRect (40 + of_nat i * (w + 15)) (of_int h - 40 - v / m * (of_int h - 2 * 40)) w
        (v / m * (of_int h - 2 * 40)) (alist_get colors name ''#cccccc''),
      SvgText (40 + of_nat i * (w + 15) + w / 2)
        (if of_int h - 40 - v / m * (of_int h - 2 * 40) - 5 < 15
         then of_int h - 40 - v / m * (of_int h - 2 * 40) + 15
         else of_int h - 40 - v / m * (of_int h - 2 * 40) - 5)
        ''12'' ''middle'' ''#333'' (Some ''bold'') (Fmt ''.1f'' v ''%''),
      SvgText (40 + of_nat i * (w + 15) + w / 2) (of_int h - 40 + 20) ''11'' ''middle''
        ''#555'' None (Lit name)])"

definition abs_height :: "(string \<rightharpoonup> rat) \<Rightarrow> int" where
  "abs_height d = py_int (effectiveMax d / 100 * 250) + 80"

definition abs_bar_width :: "(string \<rightharpoonup> rat) \<Rightarrow> rat" where
  "abs_bar_width d = (600 - 2 * 40 - (of_nat (length (emotion_values_of d)) - 1) * 15)
       / of_nat (length (emotion_values_of d))"

definition diffs_of :: "(string \<rightharpoonup> rat) \<Rightarrow> (string \<times> rat) list" where
  "diffs_of d =
     map (\<lambda>(k, ak). (alist_get labels_map k [], py_round2 (dict_get d k 0 - dict_get d ak 0)))
       (zip emotion_keys avg_keys)"

definition tick2_elems :: "rat \<Rightarrow> rat \<Rightarrow> rat \<Rightarrow> rat \<Rightarrow> svg_elem list" where
  "tick2_elems m pn b perc =
     [SvgText 30 (b - perc / m * pn + 4) ''10'' ''end'' ''#555'' None (Fmt ''.0f'' perc ''%''),
      SvgLine 40 (b - perc / m * pn) 45 (b - perc / m * pn) ''#ccc'' ''0.5'']"

definition bar2_elems :: "rat \<Rightarrow> rat \<Rightarrow> rat \<Rightarrow> rat \<Rightarrow> nat \<times> string \<times> rat \<Rightarrow> svg_elem list" where
  "bar2_elems m pn b w e = (case e of (i, name, v) \<Rightarrow>
     [SvgRect (40 + of_nat i * (w + 15)) (if 0 \<le> v then b - \<bar>v\<bar> / m * pn else b) w
        (\<bar>v\<bar> / m * pn) (alist_get colors name ''#ccc''),
      SvgText (40 + of_nat i * (w + 15) + w / 2)
        (if 0 \<le> v then b - \<bar>v\<bar> / m * pn - 5 else b + \<bar>v\<bar> / m * pn + 15)
        ''12'' ''middle'' ''#333'' (Some ''bold'') (Fmt ''+.1f'' v ''%''),
      SvgText (40 + of_nat i * (w + 15) + w / 2) (b + pn + 20) ''11'' ''middle''
        ''#555'' None (Lit name)])"

section \<open>Sample inputs\<close>

definition no_emotions :: "string \<rightharpoonup> rat" where
  "no_emotions = [''llm_skoru'' \<mapsto> 85]"

definition all_zero :: "string \<rightharpoonup> rat" where
  "all_zero = map_of (map (\<lambda>k. (k, 0)) emotion_keys_ordered)"

definition sample_record :: "string \<rightharpoonup> rat" where
  "sample_record =
     [''duygu_mutlu_%'' \<mapsto> 40, ''avg_duygu_mutlu_%'' \<mapsto> 30,
      ''duygu_kizgin_%'' \<mapsto> 10, ''avg_duygu_kizgin_%'' \<mapsto> 10,
      ''duygu_uzgun_%'' \<mapsto> 5 / 2, ''avg_duygu_uzgun_%'' \<mapsto> 10]"


text \<open>
  The document of the template (lines 535 to 596), reduced to the nodes that the assembly
  looks for: the header logo, the watermark container, the chart placeholder with some
  prior content, and the text after the last section, which holds the token on a line of
  its own, indented as the template has it.
\<close>

definition token_line :: string where
  "token_line = [CHR 0x0A, CHR 0x0A] @ ''    {{uygunluk_degerlendirmesi_bolumu}}'' @ [CHR 0x0A]"

definition template_document :: "node list" where
  "template_document =
     [Tag ''html'' []
        [Tag ''body'' []
           [Tag ''div'' [(''class'', ''page-header-logo''), (''id'', ''header_logo'')]
              [Tag ''img'' [(''src'', ''{{logo_src}}''), (''alt'', ''Logo'')] []],
            Tag ''div'' [(''class'', ''watermark-image-container''),
                         (''id'', ''watermark-placeholder'')] [],
            Tag ''div'' [(''class'', ''section'')]
              [Tag ''div'' [(''id'', ''bar-chart-placeholder'')] [NavigableString ''eski''],
               Tag ''p'' [] [NavigableString ''yorum'']],
            NavigableString token_line]]]"

definition document_without_chart :: "node list" where
  "document_without_chart =
     [Tag ''html'' []
        [Tag ''body'' []
           [Tag ''div'' [(''class'', ''section'')] [Tag ''p'' [] [NavigableString ''yorum'']],
            NavigableString uygunluk_token]]]"

text \<open>
  An upload with one row and exactly the fifteen columns that the endpoint checks, and the
  same upload without its last column \<^verbatim>\<open>tip\<close>.
\<close>

definition df_without_averages :: dataframe where
  "df_without_averages =
     \<lparr>columns = required_columns,
      rows = [[Str ''Ada'', Str ''M1'', Num 85, Num 40, Num 10, Num 0, Num 0, Num 5, Num 0,
               Num 45, Num 3, Num 2, Str ''soru'', Str ''cevap'', Num 0]]\<rparr>"

definition df_without_tip :: dataframe where
  "df_without_tip =
     \<lparr>columns = butlast required_columns,
      rows = [[Str ''Ada'', Str ''M1'', Num 85, Num 40, Num 10, Num 0, Num 0, Num 5, Num 0,
               Num 45, Num 3, Num 2, Str ''soru'', Str ''cevap'']]\<rparr>"

section \<open>Properties of the absolute chart\<close>

lemma sbind_Inr: "sbind (Inr v) f = f v"
  by (simp add: sbind_def)

lemma sbind_Inl: "sbind (Inl e) f = Inl e"
  by (simp add: sbind_def)

lemma map_res_pure:
  "(\<And>x. x \<in> set xs \<Longrightarrow> f x = Inr (g x)) \<Longrightarrow> map_res f xs = Inr (map g xs)"
  by (induction xs) (simp_all add: sbind_Inr)

lemma py_max_nonempty:
  assumes "xs \<noteq> []"
  shows "py_max xs = Inr (Max (set xs))"
proof (cases xs)
  case Nil
  with assms show ?thesis by simp
next
  case (Cons a list)
  have "Max (set (a # list)) = fold max list a" by (rule Max.set_eq_fold)
  then show ?thesis using Cons by (simp add: py_max_def)
qed

lemma py_truediv_nz: "b \<noteq> 0 \<Longrightarrow> py_truediv a b = Inr (a / b)"
  by (simp add: py_truediv_def)

lemma concat_map_option:
  "concat (map (\<lambda>k. case d k of None \<Rightarrow> [] | Some v \<Rightarrow> [g k]) ks)
     = map g (filter (\<lambda>k. d k \<noteq> None) ks)"
  by (induction ks) (auto split: option.splits)

lemma emotion_values_of_eq:
  "emotion_values_of d =
     map (\<lambda>k. (alist_get labels_map k ''Bilinmeyen'', dict_get d k 0))
         (filter (\<lambda>k. d k \<noteq> None) emotion_keys_ordered)"
  unfolding emotion_values_of_def by (rule concat_map_option)

lemma length_emotion_values_of: "length (emotion_values_of d) \<le> 7"
proof -
  have "length (emotion_values_of d) \<le> length emotion_keys_ordered"
    by (simp add: emotion_values_of_eq)
  then show ?thesis by (simp add: emotion_keys_ordered_def)
qed

lemma bar_width_pos:
  assumes "0 < n" "n \<le> 7"
  shows "0 < (600 - 2 * 40 - (of_nat n - 1) * 15) / (of_nat n :: rat)"
proof -
  have "(of_nat n :: rat) \<le> 7" using assms by (simp add: of_nat_le_iff [where ?'a = rat, of n 7, simplified])
  then have "0 < 600 - 2 * 40 - ((of_nat n :: rat) - 1) * 15" by simp
  moreover have "0 < (of_nat n :: rat)" using assms by simp
  ultimately show ?thesis by (rule divide_pos_pos)
qed

lemma y_axis_label_pure:
  "m \<noteq> 0 \<Longrightarrow> y_axis_label m h 40 i = Inr (tick_elems m h i)"
  by (simp add: y_axis_label_def tick_elems_def py_truediv_nz sbind_Inr Let_def)

lemma draw_bar_pure:
  "m \<noteq> 0 \<Longrightarrow> draw_bar m h 40 w 15 5 e = Inr (bar_elems m h w e)"
  by (cases e) (simp add: draw_bar_def bar_elems_def py_truediv_nz sbind_Inr Let_def)

lemma snd_emotion_values_of: "map snd (emotion_values_of d) = present_values d"
  by (simp add: emotion_values_of_eq present_values_def present_keys_def comp_def domIff)

lemma create_chart_eq:
  assumes ne: "emotion_values_of d \<noteq> []"
  shows "create_emotion_charts_html d =
       Inr (SvgChart ''text-align: center; margin: 20px auto; opacity: 0.6;'' 600 (abs_height d)
              (SvgText 300 25 ''12'' ''middle'' ''#333'' (Some ''400'') (Lit ''Aday Duygu Analizi'')
               # SvgLine 40 (of_int (abs_height d) - 40) 560 (of_int (abs_height d) - 40) ''#ccc'' ''1''
               # concat (map (tick_elems (effectiveMax d) (abs_height d)) [0..<5])
               @ concat (map (bar_elems (effectiveMax d) (abs_height d) (abs_bar_width d))
                           (enumerate 0 (emotion_values_of d)))))"
proof -
  let ?vs = "emotion_values_of d"
  have m0: "effectiveMax d \<noteq> 0" by (simp add: effectiveMax_def)
  have sv: "Max (set (map snd ?vs)) = Max (set (present_values d))"
    by (simp only: snd_emotion_values_of)
  have mx: "py_max (map snd ?vs) = Inr (Max (set (map snd ?vs)))"
    using ne by (simp add: py_max_nonempty)
  have meq: "(if Max (set (map snd ?vs)) < 5 then 5 else Max (set (map snd ?vs))) = effectiveMax d"
    by (simp only: sv effectiveMax_def max_def) simp
  have n0: "(of_nat (length ?vs) :: rat) \<noteq> 0" using ne by simp
  have "0 < abs_bar_width d"
    unfolding abs_bar_width_def
    by (rule bar_width_pos) (use ne length_emotion_values_of [of d] in simp_all)
  then have wpos: "\<not> abs_bar_width d \<le> 0" by simp
  have hh: "py_int (effectiveMax d / 100 * 250) + 80 = abs_height d"
    by (simp add: abs_height_def)
  have ww: "(rat_of_int 600 - 2 * 40 - (of_nat (length ?vs) - 1) * 15) / of_nat (length ?vs)
      = abs_bar_width d"
    by (simp add: abs_bar_width_def)
  have lab: "map_res (y_axis_label (effectiveMax d) (abs_height d) 40) [0..<5]
      = Inr (map (tick_elems (effectiveMax d) (abs_height d)) [0..<5])"
    by (rule map_res_pure) (rule y_axis_label_pure [OF m0])
  have bars: "map_res (draw_bar (effectiveMax d) (abs_height d) 40 (abs_bar_width d) 15 5)
        (enumerate 0 ?vs)
      = Inr (map (bar_elems (effectiveMax d) (abs_height d) (abs_bar_width d)) (enumerate 0 ?vs))"
    by (rule map_res_pure) (rule draw_bar_pure [OF m0])
  show ?thesis
    unfolding create_emotion_charts_html_def Let_def
    using ne
    by (simp only: mx sbind_Inr meq if_False py_truediv_nz [OF n0] hh ww wpos lab bars)
       simp
qed


lemma rects_ticks: "filter is_SvgRect (concat (map (tick_elems m h) xs)) = []"
  by (induction xs) (simp_all add: tick_elems_def)

lemma rects_bars:
  "filter is_SvgRect (concat (map (bar_elems m h w) xs)) = map (\<lambda>e. hd (bar_elems m h w e)) xs"
  by (induction xs) (auto simp: bar_elems_def)

lemma lits_ticks: "concat (map lit_of (concat (map (tick_elems m h) xs))) = []"
  by (induction xs) (simp_all add: tick_elems_def)

lemma lits_bars:
  "concat (map lit_of (concat (map (bar_elems m h w) xs))) = map (\<lambda>e. fst (snd e)) xs"
  by (induction xs) (auto simp: bar_elems_def)

lemma map_enumerate_snd: "map (\<lambda>e. f (snd e)) (enumerate n xs) = map f xs"
  by (induction xs arbitrary: n) simp_all

lemma abs_chart_rects:
  assumes "emotion_values_of d \<noteq> []"
  shows "\<exists>r. create_emotion_charts_html d = Inr r \<and>
      rects (chart_elems r) =
        map (\<lambda>e. hd (bar_elems (effectiveMax d) (abs_height d) (abs_bar_width d) e))
          (enumerate 0 (emotion_values_of d)) \<and>
      lit_labels (chart_elems r) = ''Aday Duygu Analizi'' # map fst (emotion_values_of d)"
  using create_chart_eq [OF assms]
  by (simp add: rects_def lit_labels_def rects_ticks rects_bars lits_ticks lits_bars
        map_enumerate_snd [where f = fst])


lemma emotion_values_present: "emotion_values_of d =
    map (\<lambda>k. (alist_get labels_map k ''Bilinmeyen'', dict_get d k 0)) (present_keys d)"
  by (simp add: emotion_values_of_eq present_keys_def domIff)

lemma emotion_values_Nil: "emotion_values_of d = [] \<longleftrightarrow> present_keys d = []"
  by (simp add: emotion_values_present)

lemma create_no_data: "present_keys d = [] \<Longrightarrow> create_emotion_charts_html d = Inr (Markup no_data_html)"
  by (simp add: create_emotion_charts_html_def emotion_values_Nil)

lemma abs_bar_width_pos: "present_keys d \<noteq> [] \<Longrightarrow> 0 < abs_bar_width d"
  unfolding abs_bar_width_def
  by (rule bar_width_pos) (use length_emotion_values_of [of d] in \<open>simp_all add: emotion_values_Nil\<close>)

lemma abs_rect_nth:
  assumes "present_keys d \<noteq> []"
  shows "\<exists>r. create_emotion_charts_html d = Inr r \<and>
     length (rects (chart_elems r)) = length (present_keys d) \<and>
     (\<forall>i < length (present_keys d). rects (chart_elems r) ! i =
        SvgRect (40 + of_nat i * (abs_bar_width d + 15))
          (of_int (abs_height d) - 40
             - dict_get d (present_keys d ! i) 0 / effectiveMax d * (of_int (abs_height d) - 2 * 40))
          (abs_bar_width d)
          (dict_get d (present_keys d ! i) 0 / effectiveMax d * (of_int (abs_height d) - 2 * 40))
          (alist_get colors (alist_get labels_map (present_keys d ! i) ''Bilinmeyen'') ''#cccccc''))"
proof -
  from assms have ne: "emotion_values_of d \<noteq> []" by (simp add: emotion_values_Nil)
  from abs_chart_rects [OF ne] obtain r where
    r: "create_emotion_charts_html d = Inr r"
    and rs: "rects (chart_elems r) =
        map (\<lambda>e. hd (bar_elems (effectiveMax d) (abs_height d) (abs_bar_width d) e))
          (enumerate 0 (emotion_values_of d))"
    by blast
  have len: "length (rects (chart_elems r)) = length (present_keys d)"
    by (simp add: rs emotion_values_present)
  show ?thesis
    using r len
    by (auto simp: rs nth_enumerate_eq emotion_values_present bar_elems_def)
qed

lemma canonical_key_color:
  assumes "k \<in> set emotion_keys_ordered"
  shows "\<exists>name. map_of labels_map k = Some name \<and>
     alist_get labels_map k ''Bilinmeyen'' = name \<and>
     map_of colors name = Some (alist_get colors name ''#cccccc'')"
  using assms
  by (auto simp: emotion_keys_ordered_def labels_map_def colors_def alist_get_def
        Mutlu_def Kizgin_def Igrenme_def Korku_def Uzgun_def Saskin_def Dogal_def)

lemma present_keys_canonical: "k \<in> set (present_keys d) \<Longrightarrow> k \<in> set emotion_keys_ordered"
  by (simp add: present_keys_def)



lemma create_never_raises: "\<exists>r. create_emotion_charts_html d = Inr r"
proof (cases "present_keys d = []")
  case True
  then show ?thesis by (simp add: create_no_data)
next
  case False
  from abs_rect_nth [OF this] show ?thesis by blast
qed

lemma all_zero_present:
  assumes "\<forall>k \<in> set emotion_keys_ordered. d k = Some 0"
  shows "present_keys d = emotion_keys_ordered"
  unfolding present_keys_def using assms by (auto simp: filter_id_conv)

text \<open>
  Claim C1, as the code has it. A record with none of the seven emotion keys gets the
  "no data" paragraph. A record whose seven values are all zero does not: it gets a chart
  with seven bars of height zero. For every record the renderer returns and raises
  nothing.
\<close>

theorem absolute_chart_missing_keys_or_zeros:
  "((\<forall>k \<in> set emotion_keys_ordered. d k = None) \<longrightarrow>
      create_emotion_charts_html d = Inr (Markup no_data_html))
   \<and> ((\<forall>k \<in> set emotion_keys_ordered. d k = Some 0) \<longrightarrow>
        (\<exists>r. create_emotion_charts_html d = Inr r \<and> r \<noteq> Markup no_data_html
           \<and> length (rects (chart_elems r)) = 7
           \<and> (\<forall>b \<in> set (rects (chart_elems r)). rect_height b = 0)))
   \<and> (\<exists>r. create_emotion_charts_html d = Inr r)"
proof (intro conjI impI)
  assume "\<forall>k \<in> set emotion_keys_ordered. d k = None"
  then have "present_keys d = []" by (auto simp: present_keys_def filter_empty_conv)
  then show "create_emotion_charts_html d = Inr (Markup no_data_html)"
    by (rule create_no_data)
next
  assume z: "\<forall>k \<in> set emotion_keys_ordered. d k = Some 0"
  have pk: "present_keys d = emotion_keys_ordered" by (rule all_zero_present [OF z])
  have len7: "length (present_keys d) = 7" by (simp add: pk emotion_keys_ordered_def)
  then have ne: "present_keys d \<noteq> []" by auto
  from abs_rect_nth [OF ne] obtain r where
    r: "create_emotion_charts_html d = Inr r"
    and len: "length (rects (chart_elems r)) = length (present_keys d)"
    and nth: "\<And>i. i < length (present_keys d) \<Longrightarrow> rect_height (rects (chart_elems r) ! i)
        = dict_get d (present_keys d ! i) 0 / effectiveMax d * (of_int (abs_height d) - 2 * 40)"
    by fastforce
  have zero: "dict_get d (present_keys d ! i) 0 = 0" if "i < length (present_keys d)" for i
  proof -
    from that have "present_keys d ! i \<in> set emotion_keys_ordered"
      unfolding pk by simp
    with z show ?thesis by (simp add: dict_get_def)
  qed
  have heights: "\<forall>b \<in> set (rects (chart_elems r)). rect_height b = 0"
    unfolding all_set_conv_all_nth using nth zero len by simp
  have "chart_elems r \<noteq> []" using len len7 by (auto simp: rects_def)
  then have "r \<noteq> Markup no_data_html" by auto
  with r len len7 heights
  show "\<exists>r. create_emotion_charts_html d = Inr r \<and> r \<noteq> Markup no_data_html
           \<and> length (rects (chart_elems r)) = 7
           \<and> (\<forall>b \<in> set (rects (chart_elems r)). rect_height b = 0)"
    by auto
next
  show "\<exists>r. create_emotion_charts_html d = Inr r" by (rule create_never_raises)
qed

lemma no_emotions_keys: "\<forall>k \<in> set emotion_keys_ordered. no_emotions k = None"
  by (simp add: emotion_keys_ordered_def no_emotions_def)

lemma all_zero_keys: "\<forall>k \<in> set emotion_keys_ordered. all_zero k = Some 0"
  by (simp add: emotion_keys_ordered_def all_zero_def)

theorem absolute_chart_missing_keys_or_zeros_witness:
  "list_all (\<lambda>k. no_emotions k = None) emotion_keys_ordered
   \<and> create_emotion_charts_html no_emotions = Inr (Markup no_data_html)
   \<and> list_all (\<lambda>k. all_zero k = Some 0) emotion_keys_ordered
   \<and> (\<exists>r. create_emotion_charts_html all_zero = Inr r \<and> r \<noteq> Markup no_data_html
           \<and> length (rects (chart_elems r)) = 7
           \<and> (\<forall>b \<in> set (rects (chart_elems r)). rect_height b = 0))"
  using absolute_chart_missing_keys_or_zeros [of no_emotions]
    absolute_chart_missing_keys_or_zeros [of all_zero] no_emotions_keys all_zero_keys
  unfolding list_all_iff by blast

text \<open>
  Claim C1 as stated fails: the record with all seven values zero is not answered with
  the "no data" paragraph.
\<close>

theorem all_zero_record_is_charted:
  "all_zero ''duygu_mutlu_%'' = Some 0 \<and> all_zero ''duygu_kizgin_%'' = Some 0
   \<and> all_zero ''duygu_igrenme_%'' = Some 0 \<and> all_zero ''duygu_korku_%'' = Some 0
   \<and> all_zero ''duygu_uzgun_%'' = Some 0 \<and> all_zero ''duygu_saskin_%'' = Some 0
   \<and> all_zero ''duygu_dogal_%'' = Some 0
   \<and> create_emotion_charts_html all_zero \<noteq> Inr (Markup no_data_html)"
proof -
  have "present_keys all_zero \<noteq> []"
    using all_zero_present [OF all_zero_keys] by (simp add: emotion_keys_ordered_def)
  then have "emotion_values_of all_zero \<noteq> []" by (simp add: emotion_values_Nil)
  from create_chart_eq [OF this]
  have "create_emotion_charts_html all_zero \<noteq> Inr (Markup no_data_html)" by simp
  then show ?thesis by (simp add: all_zero_def emotion_keys_ordered_def)
qed


lemma sample_present: "present_keys sample_record = [''duygu_mutlu_%'', ''duygu_kizgin_%'', ''duygu_uzgun_%'']"
  by (simp add: present_keys_def emotion_keys_ordered_def sample_record_def)



text \<open>
  Claim C5. The absolute chart has one bar for each canonical key present in the record.
  The bars follow the canonical order of the keys (happy, angry, disgust, fear, sad,
  surprised, neutral), their horizontal positions increase from left to right, every bar
  is filled with the colour that the colour table gives for the label of its key, and the
  category labels under the bars are the labels of the keys in the same order.
\<close>

theorem absolute_chart_bars_in_canonical_order:
  "\<exists>r. create_emotion_charts_html d = Inr r
     \<and> present_keys d =
         filter (\<lambda>k. k \<in> dom d)
           [''duygu_mutlu_%'', ''duygu_kizgin_%'', ''duygu_igrenme_%'', ''duygu_korku_%'',
            ''duygu_uzgun_%'', ''duygu_saskin_%'', ''duygu_dogal_%'']
     \<and> length (rects (chart_elems r)) = length (present_keys d)
     \<and> list_all2 (\<lambda>k b. \<exists>name. map_of labels_map k = Some name
                        \<and> map_of colors name = Some (rect_fill b))
          (present_keys d) (rects (chart_elems r))
     \<and> list_all2 (\<lambda>k name. map_of labels_map k = Some name)
          (present_keys d) (tl (lit_labels (chart_elems r)))
     \<and> sorted_wrt (<) (map rect_x (rects (chart_elems r)))"
proof (cases "present_keys d = []")
  case True
  have "create_emotion_charts_html d = Inr (Markup no_data_html)"
    by (rule create_no_data [OF True])
  moreover have "present_keys d =
         filter (\<lambda>k. k \<in> dom d)
           [''duygu_mutlu_%'', ''duygu_kizgin_%'', ''duygu_igrenme_%'', ''duygu_korku_%'',
            ''duygu_uzgun_%'', ''duygu_saskin_%'', ''duygu_dogal_%'']"
    unfolding present_keys_def emotion_keys_ordered_def ..
  ultimately show ?thesis
    using True by (simp add: rects_def lit_labels_def)
next
  case False
  have pk: "present_keys d =
         filter (\<lambda>k. k \<in> dom d)
           [''duygu_mutlu_%'', ''duygu_kizgin_%'', ''duygu_igrenme_%'', ''duygu_korku_%'',
            ''duygu_uzgun_%'', ''duygu_saskin_%'', ''duygu_dogal_%'']"
    unfolding present_keys_def emotion_keys_ordered_def ..
  from False have ne: "emotion_values_of d \<noteq> []" by (simp add: emotion_values_Nil)
  from abs_rect_nth [OF False] obtain r where
    r: "create_emotion_charts_html d = Inr r"
    and len: "length (rects (chart_elems r)) = length (present_keys d)"
    and nth: "\<And>i. i < length (present_keys d) \<Longrightarrow> rects (chart_elems r) ! i =
        SvgRect (40 + of_nat i * (abs_bar_width d + 15))
          (of_int (abs_height d) - 40
             - dict_get d (present_keys d ! i) 0 / effectiveMax d * (of_int (abs_height d) - 2 * 40))
          (abs_bar_width d)
          (dict_get d (present_keys d ! i) 0 / effectiveMax d * (of_int (abs_height d) - 2 * 40))
          (alist_get colors (alist_get labels_map (present_keys d ! i) ''Bilinmeyen'') ''#cccccc'')"
    by blast
  from abs_chart_rects [OF ne] r have
    lits: "lit_labels (chart_elems r) = ''Aday Duygu Analizi'' # map fst (emotion_values_of d)"
    by auto
  have col: "list_all2 (\<lambda>k b. \<exists>name. map_of labels_map k = Some name
                        \<and> map_of colors name = Some (rect_fill b))
          (present_keys d) (rects (chart_elems r))"
  proof (rule list_all2_all_nthI)
    show "length (present_keys d) = length (rects (chart_elems r))" by (simp add: len)
  next
    fix i assume i: "i < length (present_keys d)"
    then have "present_keys d ! i \<in> set emotion_keys_ordered"
      by (intro present_keys_canonical [of _ d] nth_mem)
    from canonical_key_color [OF this] nth [OF i]
    show "\<exists>name. map_of labels_map (present_keys d ! i) = Some name
        \<and> map_of colors name = Some (rect_fill (rects (chart_elems r) ! i))"
      by auto
  qed
  have lab: "list_all2 (\<lambda>k name. map_of labels_map k = Some name)
          (present_keys d) (tl (lit_labels (chart_elems r)))"
  proof (rule list_all2_all_nthI)
    show "length (present_keys d) = length (tl (lit_labels (chart_elems r)))"
      by (simp add: lits emotion_values_present)
  next
    fix i assume i: "i < length (present_keys d)"
    then have "present_keys d ! i \<in> set emotion_keys_ordered"
      by (intro present_keys_canonical [of _ d] nth_mem)
    from canonical_key_color [OF this] i
    show "map_of labels_map (present_keys d ! i) = Some (tl (lit_labels (chart_elems r)) ! i)"
      by (auto simp: lits emotion_values_present)
  qed
  have wpos: "0 < abs_bar_width d + 15"
    using abs_bar_width_pos [OF False] by simp
  have srt: "sorted_wrt (<) (map rect_x (rects (chart_elems r)))"
    unfolding sorted_wrt_iff_nth_less
  proof (intro allI impI)
    fix i j assume ij: "i < j" "j < length (map rect_x (rects (chart_elems r)))"
    then have j: "j < length (present_keys d)" and i: "i < length (present_keys d)"
      by (simp_all add: len)
    have "rat_of_nat i < rat_of_nat j" using ij by simp
    then have "of_nat i * (abs_bar_width d + 15) < of_nat j * (abs_bar_width d + 15)"
      using wpos by (simp add: mult_strict_right_mono)
    then show "map rect_x (rects (chart_elems r)) ! i < map rect_x (rects (chart_elems r)) ! j"
      using i j by (simp add: len nth)
  qed
  from r pk len col lab srt show ?thesis by blast
qed

theorem absolute_chart_bars_in_canonical_order_witness:
  "\<exists>r. create_emotion_charts_html sample_record = Inr r
     \<and> present_keys sample_record = [''duygu_mutlu_%'', ''duygu_kizgin_%'', ''duygu_uzgun_%'']
     \<and> map rect_fill (rects (chart_elems r)) = [''#d4eac8'', ''#e5b9b5'', ''#b7d0e2'']
     \<and> tl (lit_labels (chart_elems r)) = [Mutlu, Kizgin, Uzgun]"
proof -
  from absolute_chart_bars_in_canonical_order [of sample_record] obtain r where
    r: "create_emotion_charts_html sample_record = Inr r"
    and col: "list_all2 (\<lambda>k b. \<exists>name. map_of labels_map k = Some name
                        \<and> map_of colors name = Some (rect_fill b))
          (present_keys sample_record) (rects (chart_elems r))"
    and lab: "list_all2 (\<lambda>k name. map_of labels_map k = Some name)
          (present_keys sample_record) (tl (lit_labels (chart_elems r)))"
    by blast
  have c: "map rect_fill (rects (chart_elems r)) = [''#d4eac8'', ''#e5b9b5'', ''#b7d0e2'']"
    using col unfolding sample_present
    by (auto simp: list_all2_Cons1 labels_map_def colors_def
          Mutlu_def Kizgin_def Igrenme_def Korku_def Uzgun_def Saskin_def Dogal_def)
  have l: "tl (lit_labels (chart_elems r)) = [Mutlu, Kizgin, Uzgun]"
    using lab unfolding sample_present
    by (auto simp: list_all2_Cons1 labels_map_def)
  show ?thesis
    by (rule exI [of _ r]) (intro conjI r sample_present c l)
qed

section \<open>Properties of the differential chart\<close>

lemma diff_entry_pure:
  assumes "kk \<in> set (zip emotion_keys avg_keys)"
  shows "diff_entry d kk =
     Inr (case kk of (k, ak) \<Rightarrow>
            (alist_get labels_map k [], py_round2 (dict_get d k 0 - dict_get d ak 0)))"
  using assms
  by (auto simp: emotion_keys_def avg_keys_def diff_entry_def alist_item_def alist_get_def
        labels_map_def sbind_Inr)

lemma diff_entries: "map_res (diff_entry d) (zip emotion_keys avg_keys) = Inr (diffs_of d)"
  unfolding diffs_of_def by (rule map_res_pure) (rule diff_entry_pure)

lemma length_diffs_of: "length (diffs_of d) = 7"
  by (simp add: diffs_of_def emotion_keys_def avg_keys_def)

lemma snd_diffs_of: "map snd (diffs_of d) = spec_diffs d"
  by (simp add: diffs_of_def spec_diffs_def split_def)

lemma abs_diffs_of: "map (\<lambda>e. \<bar>snd e\<bar>) (diffs_of d) = map abs (spec_diffs d)"
  by (simp add: snd_diffs_of [symmetric])

lemma maxAbs_ge5: "5 \<le> maxAbs d"
  by (simp add: maxAbs_def)

lemma y_axis_label_2_pure:
  "m \<noteq> 0 \<Longrightarrow> y_axis_label_2 m pn b 40 perc = Inr (tick2_elems m pn b perc)"
  by (simp add: y_axis_label_2_def tick2_elems_def py_truediv_nz sbind_Inr Let_def)

lemma draw_bar_2_pure:
  "m \<noteq> 0 \<Longrightarrow> draw_bar_2 m pn b 40 w 15 e = Inr (bar2_elems m pn b w e)"
  by (cases e) (simp add: draw_bar_2_def bar2_elems_def py_truediv_nz sbind_Inr Let_def)

lemma create2_eq:
  "create_emotion_charts_html_2 d =
     Inr (SvgChart ''text-align:center;margin:20px auto;opacity:0.6;'' 600
            (py_int (panel_of d * 2 + 40 * 2))
            (SvgText 300 25 ''12'' ''middle'' ''#333'' (Some ''400'') (Lit diff_title)
             # SvgLine 40 (baseline_of d) 560 (baseline_of d) ''#ccc'' ''1''
             # concat (map (tick2_elems (maxAbs d) (panel_of d) (baseline_of d))
                         [- maxAbs d, 0, maxAbs d])
             @ concat (map (bar2_elems (maxAbs d) (panel_of d) (baseline_of d) (430 / 7))
                         (enumerate 0 (diffs_of d)))))"
proof -
  let ?ds = "diffs_of d"
  have ne: "?ds \<noteq> []" using length_diffs_of [of d] by auto
  have m0: "maxAbs d \<noteq> 0" using maxAbs_ge5 [of d] by simp
  have mx: "py_max (map (\<lambda>e. \<bar>snd e\<bar>) ?ds) = Inr (Max (set (map abs (spec_diffs d))))"
    unfolding abs_diffs_of
    by (rule py_max_nonempty) (use ne snd_diffs_of [of d] in auto)
  have meq: "(if Max (set (map abs (spec_diffs d))) < 5 then 5
             else Max (set (map abs (spec_diffs d)))) = maxAbs d"
    by (simp only: maxAbs_def max_def) simp
  have pn: "maxAbs d / 100 * 250 = panel_of d" by (simp add: panel_of_def)
  have bl: "40 + panel_of d = baseline_of d" by (simp add: baseline_of_def)
  have bw: "py_truediv (rat_of_int 600 - 2 * 40 - (of_nat (length ?ds) - 1) * 15)
              (of_nat (length ?ds)) = Inr (430 / 7)"
    by (simp add: length_diffs_of py_truediv_def)
  have lab: "map_res (y_axis_label_2 (maxAbs d) (panel_of d) (baseline_of d) 40)
        [- maxAbs d, 0, maxAbs d]
      = Inr (map (tick2_elems (maxAbs d) (panel_of d) (baseline_of d)) [- maxAbs d, 0, maxAbs d])"
    by (rule map_res_pure) (rule y_axis_label_2_pure [OF m0])
  have bars: "map_res (draw_bar_2 (maxAbs d) (panel_of d) (baseline_of d) 40 (430 / 7) 15)
        (enumerate 0 ?ds)
      = Inr (map (bar2_elems (maxAbs d) (panel_of d) (baseline_of d) (430 / 7)) (enumerate 0 ?ds))"
    by (rule map_res_pure) (rule draw_bar_2_pure [OF m0])
  show ?thesis
    unfolding create_emotion_charts_html_2_def Let_def
    using ne
    by (simp only: diff_entries sbind_Inr mx meq if_False pn bl bw lab bars)
       simp
qed

lemma rects_ticks2: "filter is_SvgRect (concat (map (tick2_elems m pn b) xs)) = []"
  by (induction xs) (simp_all add: tick2_elems_def)

lemma rects_bars2:
  "filter is_SvgRect (concat (map (bar2_elems m pn b w) xs))
     = map (\<lambda>e. hd (bar2_elems m pn b w e)) xs"
  by (induction xs) (auto simp: bar2_elems_def)

lemma lines_ticks2:
  "filter is_SvgLine (concat (map (tick2_elems m pn b) xs))
     = map (\<lambda>perc. SvgLine 40 (b - perc / m * pn) 45 (b - perc / m * pn) ''#ccc'' ''0.5'') xs"
  by (induction xs) (simp_all add: tick2_elems_def)

lemma lines_bars2: "filter is_SvgLine (concat (map (bar2_elems m pn b w) xs)) = []"
  by (induction xs) (auto simp: bar2_elems_def)

lemma fmt_ticks2:
  "filter (has_fmt ''.0f'') (concat (map (tick2_elems m pn b) xs))
     = map (\<lambda>perc. hd (tick2_elems m pn b perc)) xs"
  "filter (has_fmt ''+.1f'') (concat (map (tick2_elems m pn b) xs))
     = []"
  by (induction xs) (simp_all add: tick2_elems_def)

lemma fmt_bars2:
  "filter (has_fmt ''.0f'') (concat (map (bar2_elems m pn b w) xs))
     = []"
  "filter (has_fmt ''+.1f'') (concat (map (bar2_elems m pn b w) xs))
     = map (\<lambda>e. hd (tl (bar2_elems m pn b w e))) xs"
  by (induction xs) (auto simp: bar2_elems_def)

lemma diff_chart_parts:
  "\<exists>style es. create_emotion_charts_html_2 d =
       Inr (SvgChart style 600 (py_int (panel_of d * 2 + 40 * 2)) es)
     \<and> rects es = map (\<lambda>e. hd (bar2_elems (maxAbs d) (panel_of d) (baseline_of d) (430 / 7) e))
                    (enumerate 0 (diffs_of d))
     \<and> fmt_labels ''+.1f'' es
         = map (\<lambda>e. hd (tl (bar2_elems (maxAbs d) (panel_of d) (baseline_of d) (430 / 7) e)))
             (enumerate 0 (diffs_of d))
     \<and> fmt_labels ''.0f'' es
         = map (\<lambda>perc. hd (tick2_elems (maxAbs d) (panel_of d) (baseline_of d) perc))
             [- maxAbs d, 0, maxAbs d]
     \<and> lines es = SvgLine 40 (baseline_of d) 560 (baseline_of d) ''#ccc'' ''1''
         # map (\<lambda>perc. SvgLine 40 (baseline_of d - perc / maxAbs d * panel_of d) 45
                         (baseline_of d - perc / maxAbs d * panel_of d) ''#ccc'' ''0.5'')
             [- maxAbs d, 0, maxAbs d]"
  unfolding create2_eq rects_def lines_def fmt_labels_def
  by (simp add: rects_ticks2 rects_bars2 lines_ticks2 lines_bars2 fmt_ticks2 fmt_bars2
        del: list.map)


lemma diff_bar_nth:
  assumes "i < 7"
  shows "hd (bar2_elems m pn b w (enumerate 0 (diffs_of d) ! i)) =
           SvgRect (40 + of_nat i * (w + 15))
             (if 0 \<le> spec_diffs d ! i then b - \<bar>spec_diffs d ! i\<bar> / m * pn else b) w
             (\<bar>spec_diffs d ! i\<bar> / m * pn)
             (alist_get colors (fst (diffs_of d ! i)) ''#ccc'')"
    and "hd (tl (bar2_elems m pn b w (enumerate 0 (diffs_of d) ! i))) =
           SvgText (40 + of_nat i * (w + 15) + w / 2)
             (if 0 \<le> spec_diffs d ! i then b - \<bar>spec_diffs d ! i\<bar> / m * pn - 5
              else b + \<bar>spec_diffs d ! i\<bar> / m * pn + 15)
             ''12'' ''middle'' ''#333'' (Some ''bold'') (Fmt ''+.1f'' (spec_diffs d ! i) ''%'')"
proof -
  have i: "i < length (diffs_of d)" using assms by (simp add: length_diffs_of)
  have s: "spec_diffs d ! i = snd (diffs_of d ! i)"
    using i by (simp add: snd_diffs_of [symmetric])
  show "hd (bar2_elems m pn b w (enumerate 0 (diffs_of d) ! i)) =
           SvgRect (40 + of_nat i * (w + 15))
             (if 0 \<le> spec_diffs d ! i then b - \<bar>spec_diffs d ! i\<bar> / m * pn else b) w
             (\<bar>spec_diffs d ! i\<bar> / m * pn)
             (alist_get colors (fst (diffs_of d ! i)) ''#ccc'')"
    using i by (simp add: nth_enumerate_eq bar2_elems_def s split_def)
  show "hd (tl (bar2_elems m pn b w (enumerate 0 (diffs_of d) ! i))) =
           SvgText (40 + of_nat i * (w + 15) + w / 2)
             (if 0 \<le> spec_diffs d ! i then b - \<bar>spec_diffs d ! i\<bar> / m * pn - 5
              else b + \<bar>spec_diffs d ! i\<bar> / m * pn + 15)
             ''12'' ''middle'' ''#333'' (Some ''bold'') (Fmt ''+.1f'' (spec_diffs d ! i) ''%'')"
    using i by (simp add: nth_enumerate_eq bar2_elems_def s split_def)
qed

lemma length_spec_diffs: "length (spec_diffs d) = 7"
  by (simp add: spec_diffs_def emotion_keys_def avg_keys_def)

lemma diff_chart_bars:
  "\<exists>style es. create_emotion_charts_html_2 d =
       Inr (SvgChart style 600 (py_int (panel_of d * 2 + 40 * 2)) es)
     \<and> length (rects es) = 7 \<and> length (fmt_labels ''+.1f'' es) = 7
     \<and> (\<forall>i < 7. rects es ! i =
           SvgRect (40 + of_nat i * (430 / 7 + 15))
             (if 0 \<le> spec_diffs d ! i
              then baseline_of d - \<bar>spec_diffs d ! i\<bar> / maxAbs d * panel_of d
              else baseline_of d) (430 / 7)
             (\<bar>spec_diffs d ! i\<bar> / maxAbs d * panel_of d)
             (alist_get colors (fst (diffs_of d ! i)) ''#ccc''))
     \<and> (\<forall>i < 7. fmt_labels ''+.1f'' es ! i =
           SvgText (40 + of_nat i * (430 / 7 + 15) + 430 / 7 / 2)
             (if 0 \<le> spec_diffs d ! i
              then baseline_of d - \<bar>spec_diffs d ! i\<bar> / maxAbs d * panel_of d - 5
              else baseline_of d + \<bar>spec_diffs d ! i\<bar> / maxAbs d * panel_of d + 15)
             ''12'' ''middle'' ''#333'' (Some ''bold'') (Fmt ''+.1f'' (spec_diffs d ! i) ''%''))"
proof -
  from diff_chart_parts [of d] obtain style es where
    c: "create_emotion_charts_html_2 d =
       Inr (SvgChart style 600 (py_int (panel_of d * 2 + 40 * 2)) es)"
    and rs: "rects es = map (\<lambda>e. hd (bar2_elems (maxAbs d) (panel_of d) (baseline_of d) (430 / 7) e))
                    (enumerate 0 (diffs_of d))"
    and ls: "fmt_labels ''+.1f'' es
         = map (\<lambda>e. hd (tl (bar2_elems (maxAbs d) (panel_of d) (baseline_of d) (430 / 7) e)))
             (enumerate 0 (diffs_of d))"
    by blast
  have l1: "length (rects es) = 7" by (simp add: rs length_diffs_of)
  have l2: "length (fmt_labels ''+.1f'' es) = 7" by (simp add: ls length_diffs_of)
  have n1: "rects es ! i =
           SvgRect (40 + of_nat i * (430 / 7 + 15))
             (if 0 \<le> spec_diffs d ! i
              then baseline_of d - \<bar>spec_diffs d ! i\<bar> / maxAbs d * panel_of d
              else baseline_of d) (430 / 7)
             (\<bar>spec_diffs d ! i\<bar> / maxAbs d * panel_of d)
             (alist_get colors (fst (diffs_of d ! i)) ''#ccc'')" if "i < 7" for i
    unfolding rs using that diff_bar_nth(1) [OF that]
    by (simp only: nth_map length_enumerate length_diffs_of)
  have n2: "fmt_labels ''+.1f'' es ! i =
           SvgText (40 + of_nat i * (430 / 7 + 15) + 430 / 7 / 2)
             (if 0 \<le> spec_diffs d ! i
              then baseline_of d - \<bar>spec_diffs d ! i\<bar> / maxAbs d * panel_of d - 5
              else baseline_of d + \<bar>spec_diffs d ! i\<bar> / maxAbs d * panel_of d + 15)
             ''12'' ''middle'' ''#333'' (Some ''bold'') (Fmt ''+.1f'' (spec_diffs d ! i) ''%'')"
    if "i < 7" for i
    unfolding ls using that diff_bar_nth(2) [OF that]
    by (simp only: nth_map length_enumerate length_diffs_of)
  from c l1 l2 n1 n2 show ?thesis by blast
qed

text \<open>
  Claim C10. For every input dictionary the differential chart is drawn with exactly
  seven bars, one for each canonical key: the value and the average of a key count as 0
  when missing, so the list of differences always has seven entries and the "no data"
  paragraph is never returned. The absolute chart, in contrast, draws a bar only for the
  keys present.
\<close>

theorem differential_chart_always_seven_bars:
  "(\<exists>style w h es. create_emotion_charts_html_2 d = Inr (SvgChart style w h es)
       \<and> length (rects es) = 7
       \<and> map body (fmt_labels ''+.1f'' es) = map (\<lambda>v. Fmt ''+.1f'' v ''%'') (spec_diffs d))
   \<and> create_emotion_charts_html_2 d \<noteq> Inr (Markup no_data_html)
   \<and> length (spec_diffs d) = 7
   \<and> (\<exists>r. create_emotion_charts_html d = Inr r
          \<and> length (rects (chart_elems r)) = length (present_keys d))"
proof -
  from diff_chart_bars [of d] obtain style es where
    c: "create_emotion_charts_html_2 d =
       Inr (SvgChart style 600 (py_int (panel_of d * 2 + 40 * 2)) es)"
    and l1: "length (rects es) = 7" and l2: "length (fmt_labels ''+.1f'' es) = 7"
    and n2: "\<And>i. i < 7 \<Longrightarrow> body (fmt_labels ''+.1f'' es ! i) = Fmt ''+.1f'' (spec_diffs d ! i) ''%''"
    by fastforce
  have labs: "map body (fmt_labels ''+.1f'' es) = map (\<lambda>v. Fmt ''+.1f'' v ''%'') (spec_diffs d)"
    by (rule nth_equalityI) (simp_all add: l2 length_spec_diffs n2)
  have abs_part: "\<exists>r. create_emotion_charts_html d = Inr r
          \<and> length (rects (chart_elems r)) = length (present_keys d)"
  proof (cases "present_keys d = []")
    case True
    then show ?thesis by (simp add: create_no_data rects_def)
  next
    case False
    from abs_rect_nth [OF this] show ?thesis by blast
  qed
  from c l1 labs abs_part show ?thesis
    by (simp add: length_spec_diffs)
qed



lemma sample_diffs: "spec_diffs sample_record = [10, 0, 0, 0, - (15 / 2), 0, 0]"
  by (simp add: spec_diffs_def emotion_keys_def avg_keys_def sample_record_def dict_get_def
        py_round2_def round_half_even_def Let_def)

lemma sample_maxAbs: "maxAbs sample_record = 10"
  by (simp add: maxAbs_def sample_diffs)



lemma panel_pos: "0 < panel_of d"
  using maxAbs_ge5 [of d] by (simp add: panel_of_def)

text \<open>
  Claim C9. The differential chart has three labelled reference lines, for
  \<open>-maxAbs\<close>, 0 and \<open>+maxAbs\<close>, one panel below the baseline, on it and one panel
  above it; the zero axis lies on the middle one, so the lines of the chart are horizontal
  and lie at exactly these three heights. The height of a bar is
  \<open>|diff| / maxAbs * panel\<close>. A bar with \<open>diff \<ge> 0\<close> ends on the baseline and
  extends upwards from it, a bar with \<open>diff < 0\<close> starts on the baseline and extends
  downwards. The value label is formatted with an explicit sign (\<open>+.1f\<close>), is centred
  on the bar and sits 5 units above the top of a bar that extends upwards and 15 units
  below the bottom of a bar that extends downwards.
\<close>

theorem differential_chart_gridlines_and_bars:
  "\<exists>style w h es. create_emotion_charts_html_2 d = Inr (SvgChart style w h es)
     \<and> map body (fmt_labels ''.0f'' es)
         = [Fmt ''.0f'' (- maxAbs d) ''%'', Fmt ''.0f'' 0 ''%'', Fmt ''.0f'' (maxAbs d) ''%'']
     \<and> filter (\<lambda>l. stroke_width l = ''0.5'') (lines es)
         = [SvgLine 40 (baseline_of d + panel_of d) 45 (baseline_of d + panel_of d) ''#ccc'' ''0.5'',
            SvgLine 40 (baseline_of d) 45 (baseline_of d) ''#ccc'' ''0.5'',
            SvgLine 40 (baseline_of d - panel_of d) 45 (baseline_of d - panel_of d) ''#ccc'' ''0.5'']
     \<and> set (map y1 (lines es))
         = {baseline_of d + panel_of d, baseline_of d, baseline_of d - panel_of d}
     \<and> list_all (\<lambda>l. y1 l = y2 l) (lines es)
     \<and> 0 < panel_of d
     \<and> length (rects es) = 7 \<and> length (fmt_labels ''+.1f'' es) = 7
     \<and> (\<forall>i < 7.
           rect_height (rects es ! i) = \<bar>spec_diffs d ! i\<bar> / maxAbs d * panel_of d
         \<and> rect_y (rects es ! i)
             = (if 0 \<le> spec_diffs d ! i then baseline_of d - rect_height (rects es ! i)
                else baseline_of d)
         \<and> body (fmt_labels ''+.1f'' es ! i) = Fmt ''+.1f'' (spec_diffs d ! i) ''%''
         \<and> text_y (fmt_labels ''+.1f'' es ! i)
             = (if 0 \<le> spec_diffs d ! i then rect_y (rects es ! i) - 5
                else rect_y (rects es ! i) + rect_height (rects es ! i) + 15)
         \<and> text_x (fmt_labels ''+.1f'' es ! i)
             = rect_x (rects es ! i) + rect_width (rects es ! i) / 2)"
proof -
  have m0: "maxAbs d \<noteq> 0" using maxAbs_ge5 [of d] by simp
  from diff_chart_parts [of d] obtain style es where
    c: "create_emotion_charts_html_2 d =
       Inr (SvgChart style 600 (py_int (panel_of d * 2 + 40 * 2)) es)"
    and ts: "fmt_labels ''.0f'' es
         = map (\<lambda>perc. hd (tick2_elems (maxAbs d) (panel_of d) (baseline_of d) perc))
             [- maxAbs d, 0, maxAbs d]"
    and ls: "lines es = SvgLine 40 (baseline_of d) 560 (baseline_of d) ''#ccc'' ''1''
         # map (\<lambda>perc. SvgLine 40 (baseline_of d - perc / maxAbs d * panel_of d) 45
                         (baseline_of d - perc / maxAbs d * panel_of d) ''#ccc'' ''0.5'')
             [- maxAbs d, 0, maxAbs d]"
    by blast
  from diff_chart_bars [of d] c obtain
    l1: "length (rects es) = 7" and l2: "length (fmt_labels ''+.1f'' es) = 7"
    and n1: "\<And>i. i < 7 \<Longrightarrow> rects es ! i =
           SvgRect (40 + of_nat i * (430 / 7 + 15))
             (if 0 \<le> spec_diffs d ! i
              then baseline_of d - \<bar>spec_diffs d ! i\<bar> / maxAbs d * panel_of d
              else baseline_of d) (430 / 7)
             (\<bar>spec_diffs d ! i\<bar> / maxAbs d * panel_of d)
             (alist_get colors (fst (diffs_of d ! i)) ''#ccc'')"
    and n2: "\<And>i. i < 7 \<Longrightarrow> fmt_labels ''+.1f'' es ! i =
           SvgText (40 + of_nat i * (430 / 7 + 15) + 430 / 7 / 2)
             (if 0 \<le> spec_diffs d ! i
              then baseline_of d - \<bar>spec_diffs d ! i\<bar> / maxAbs d * panel_of d - 5
              else baseline_of d + \<bar>spec_diffs d ! i\<bar> / maxAbs d * panel_of d + 15)
             ''12'' ''middle'' ''#333'' (Some ''bold'') (Fmt ''+.1f'' (spec_diffs d ! i) ''%'')"
    by auto
  have t: "map body (fmt_labels ''.0f'' es)
         = [Fmt ''.0f'' (- maxAbs d) ''%'', Fmt ''.0f'' 0 ''%'', Fmt ''.0f'' (maxAbs d) ''%'']"
    by (simp add: ts tick2_elems_def)
  have g: "filter (\<lambda>l. stroke_width l = ''0.5'') (lines es)
         = [SvgLine 40 (baseline_of d + panel_of d) 45 (baseline_of d + panel_of d) ''#ccc'' ''0.5'',
            SvgLine 40 (baseline_of d) 45 (baseline_of d) ''#ccc'' ''0.5'',
            SvgLine 40 (baseline_of d - panel_of d) 45 (baseline_of d - panel_of d) ''#ccc'' ''0.5'']"
    using m0 by (simp add: ls)
  have ys: "set (map y1 (lines es))
         = {baseline_of d + panel_of d, baseline_of d, baseline_of d - panel_of d}"
    using m0 by (auto simp: ls)
  have hz: "list_all (\<lambda>l. y1 l = y2 l) (lines es)"
    by (simp add: ls)
  have bars: "rect_height (rects es ! i) = \<bar>spec_diffs d ! i\<bar> / maxAbs d * panel_of d
         \<and> rect_y (rects es ! i)
             = (if 0 \<le> spec_diffs d ! i then baseline_of d - rect_height (rects es ! i)
                else baseline_of d)
         \<and> body (fmt_labels ''+.1f'' es ! i) = Fmt ''+.1f'' (spec_diffs d ! i) ''%''
         \<and> text_y (fmt_labels ''+.1f'' es ! i)
             = (if 0 \<le> spec_diffs d ! i then rect_y (rects es ! i) - 5
                else rect_y (rects es ! i) + rect_height (rects es ! i) + 15)
         \<and> text_x (fmt_labels ''+.1f'' es ! i)
             = rect_x (rects es ! i) + rect_width (rects es ! i) / 2" if "i < 7" for i
    by (simp add: n1 [OF that] n2 [OF that])
  have pp: "0 < panel_of d" by (rule panel_pos)
  from bars have bars': "\<forall>i < 7.
           rect_height (rects es ! i) = \<bar>spec_diffs d ! i\<bar> / maxAbs d * panel_of d
         \<and> rect_y (rects es ! i)
             = (if 0 \<le> spec_diffs d ! i then baseline_of d - rect_height (rects es ! i)
                else baseline_of d)
         \<and> body (fmt_labels ''+.1f'' es ! i) = Fmt ''+.1f'' (spec_diffs d ! i) ''%''
         \<and> text_y (fmt_labels ''+.1f'' es ! i)
             = (if 0 \<le> spec_diffs d ! i then rect_y (rects es ! i) - 5
                else rect_y (rects es ! i) + rect_height (rects es ! i) + 15)
         \<and> text_x (fmt_labels ''+.1f'' es ! i)
             = rect_x (rects es ! i) + rect_width (rects es ! i) / 2"
    by (intro allI impI)
  show ?thesis
    apply (rule exI [of _ style])
    apply (rule exI [of _ 600])
    apply (rule exI [of _ "py_int (panel_of d * 2 + 40 * 2)"])
    apply (rule exI [of _ es])
    apply (intro conjI)
    apply (rule c t g ys hz pp l1 l2 bars')+
    done
qed

lemma sample_panel: "panel_of sample_record = 25" "baseline_of sample_record = 65"
  by (simp_all add: panel_of_def baseline_of_def sample_maxAbs)

theorem differential_chart_gridlines_and_bars_witness:
  "\<exists>style w h es. create_emotion_charts_html_2 sample_record = Inr (SvgChart style w h es)
     \<and> map body (fmt_labels ''.0f'' es)
         = [Fmt ''.0f'' (- 10) ''%'', Fmt ''.0f'' 0 ''%'', Fmt ''.0f'' 10 ''%'']
     \<and> set (map y1 (lines es)) = {90, 65, 40}
     \<and> spec_diffs sample_record ! 0 = 10
     \<and> rect_y (rects es ! 0) = 40 \<and> rect_height (rects es ! 0) = 25
     \<and> text_y (fmt_labels ''+.1f'' es ! 0) = 35
     \<and> spec_diffs sample_record ! 4 = - (15 / 2)
     \<and> rect_y (rects es ! 4) = 65 \<and> rect_height (rects es ! 4) = 75 / 4
     \<and> text_y (fmt_labels ''+.1f'' es ! 4) = 395 / 4"
proof -
  from differential_chart_gridlines_and_bars [of sample_record] obtain style w h es where
    all: "create_emotion_charts_html_2 sample_record = Inr (SvgChart style w h es)
     \<and> map body (fmt_labels ''.0f'' es)
         = [Fmt ''.0f'' (- maxAbs sample_record) ''%'', Fmt ''.0f'' 0 ''%'',
            Fmt ''.0f'' (maxAbs sample_record) ''%'']
     \<and> filter (\<lambda>l. stroke_width l = ''0.5'') (lines es)
         = [SvgLine 40 (baseline_of sample_record + panel_of sample_record) 45
              (baseline_of sample_record + panel_of sample_record) ''#ccc'' ''0.5'',
            SvgLine 40 (baseline_of sample_record) 45 (baseline_of sample_record) ''#ccc'' ''0.5'',
            SvgLine 40 (baseline_of sample_record - panel_of sample_record) 45
              (baseline_of sample_record - panel_of sample_record) ''#ccc'' ''0.5'']
     \<and> set (map y1 (lines es))
         = {baseline_of sample_record + panel_of sample_record, baseline_of sample_record,
            baseline_of sample_record - panel_of sample_record}
     \<and> list_all (\<lambda>l. y1 l = y2 l) (lines es)
     \<and> 0 < panel_of sample_record
     \<and> length (rects es) = 7 \<and> length (fmt_labels ''+.1f'' es) = 7
     \<and> (\<forall>i < 7.
           rect_height (rects es ! i)
             = \<bar>spec_diffs sample_record ! i\<bar> / maxAbs sample_record * panel_of sample_record
         \<and> rect_y (rects es ! i)
             = (if 0 \<le> spec_diffs sample_record ! i
                then baseline_of sample_record - rect_height (rects es ! i)
                else baseline_of sample_record)
         \<and> body (fmt_labels ''+.1f'' es ! i) = Fmt ''+.1f'' (spec_diffs sample_record ! i) ''%''
         \<and> text_y (fmt_labels ''+.1f'' es ! i)
             = (if 0 \<le> spec_diffs sample_record ! i then rect_y (rects es ! i) - 5
                else rect_y (rects es ! i) + rect_height (rects es ! i) + 15)
         \<and> text_x (fmt_labels ''+.1f'' es ! i)
             = rect_x (rects es ! i) + rect_width (rects es ! i) / 2)"
    by (elim exE) (rule that)
  from all have c: "create_emotion_charts_html_2 sample_record = Inr (SvgChart style w h es)"
    by (rule conjunct1)
  from all have t: "map body (fmt_labels ''.0f'' es)
         = [Fmt ''.0f'' (- 10) ''%'', Fmt ''.0f'' 0 ''%'', Fmt ''.0f'' 10 ''%'']"
    by (simp add: sample_maxAbs)
  from all have ys: "set (map y1 (lines es)) = {90, 65, 40}"
    by (simp add: sample_panel)
  from all have bars: "i < 7 \<Longrightarrow>
           rect_height (rects es ! i) = \<bar>spec_diffs sample_record ! i\<bar> / 10 * 25
         \<and> rect_y (rects es ! i)
             = (if 0 \<le> spec_diffs sample_record ! i then 65 - rect_height (rects es ! i)
                else 65)
         \<and> text_y (fmt_labels ''+.1f'' es ! i)
             = (if 0 \<le> spec_diffs sample_record ! i then rect_y (rects es ! i) - 5
                else rect_y (rects es ! i) + rect_height (rects es ! i) + 15)" for i
    by (simp add: sample_panel sample_maxAbs)
  have b0: "rect_y (rects es ! 0) = 40 \<and> rect_height (rects es ! 0) = 25
     \<and> text_y (fmt_labels ''+.1f'' es ! 0) = 35"
    using bars [of 0] by (simp add: sample_diffs)
  have b4: "rect_y (rects es ! 4) = 65 \<and> rect_height (rects es ! 4) = 75 / 4
     \<and> text_y (fmt_labels ''+.1f'' es ! 4) = 395 / 4"
    using bars [of 4] by (simp add: sample_diffs)
  show ?thesis
    using c t ys b0 b4 by (simp add: sample_diffs)
qed






section \<open>Properties of the document assembly\<close>

lemma find_first_never: "p = (\<lambda>_. False) \<Longrightarrow> find_first p soup = None"
  by (induction p soup rule: find_first.induct) auto

lemma node_list_induct [case_names Nil Tag String Soup]:
  assumes "P []"
    and "\<And>n a cs rest. P cs \<Longrightarrow> P rest \<Longrightarrow> P (Tag n a cs # rest)"
    and "\<And>s rest. P rest \<Longrightarrow> P (NavigableString s # rest)"
    and "\<And>hs rest. P rest \<Longrightarrow> P (Soup hs # rest)"
  shows "P soup"
proof -
  have "P soup" if "p = (\<lambda>_. False)" for p :: "node \<Rightarrow> bool"
    using that
  proof (induction p soup rule: find_first.induct)
    case (1 p)
    show ?case by (rule assms(1))
  next
    case (2 p n a cs rest)
    then show ?case by (intro assms(2)) (simp_all add: find_first_never)
  next
    case (3 p s rest)
    then show ?case by (intro assms(3)) simp_all
  next
    case (4 p hs rest)
    then show ?case by (intro assms(4)) simp_all
  qed
  then show ?thesis by simp
qed


lemma update_first_None: "update_first p f soup = None \<longleftrightarrow> find_first p soup = None"
  by (induction soup rule: node_list_induct) (auto split: option.splits)

lemma update_first_SomeD:
  "update_first p f soup = Some soup' \<Longrightarrow> \<exists>t. find_first p soup = Some t"
  using update_first_None [of p f soup] by auto

lemma find_first_accepts: "find_first p soup = Some t \<Longrightarrow> p t"
  by (induction soup rule: node_list_induct) (auto split: if_splits option.splits)

lemma mutate_first_absent: "find_first p soup = None \<Longrightarrow> mutate_first p f soup = soup"
  using update_first_None [of p "\<lambda>x. [f x]" soup] by (simp add: mutate_first_def)

lemma find_after_update:
  assumes ci: "\<And>n a cs cs'. p (Tag n a cs) = p (Tag n a cs')"
    and keep: "\<And>t. p t \<Longrightarrow> p (f t)"
  shows "update_first p (\<lambda>x. [f x]) soup = Some soup' \<Longrightarrow>
           find_first p soup' = map_option f (find_first p soup)"
proof (induction soup arbitrary: soup' rule: node_list_induct)
  case Nil
  then show ?case by simp
next
  case (Tag n a cs rest)
  show ?case
  proof (cases "p (Tag n a cs)")
    case True
    with keep [of "Tag n a cs"] have "p (f (Tag n a cs))" by simp
    with Tag True show ?thesis
      by (cases "f (Tag n a cs)") auto
  next
    case False
    note np = this
    show ?thesis
    proof (cases "update_first p (\<lambda>x. [f x]) cs")
      case (Some cs')
      from update_first_SomeD [OF Some] obtain t where "find_first p cs = Some t" ..
      with Some Tag np ci [of n a cs' cs] show ?thesis
        by (auto simp: update_first_None split: option.splits)
    next
      case None
      with Tag np show ?thesis
        by (auto simp: update_first_None split: option.splits)
    qed
  qed
next
  case (String s rest)
  show ?case
  proof (cases "p (NavigableString s)")
    case True
    with keep [of "NavigableString s"] have "p (f (NavigableString s))" by simp
    with String True show ?thesis
      by (cases "f (NavigableString s)") auto
  next
    case False
    with String show ?thesis by auto
  qed
next
  case (Soup hs rest)
  show ?case
  proof (cases "p (Soup hs)")
    case True
    with keep [of "Soup hs"] have "p (f (Soup hs))" by simp
    with Soup True show ?thesis
      by (cases "f (Soup hs)") auto
  next
    case False
    with Soup show ?thesis by auto
  qed
qed

text \<open>Two mutations of the first accepted node, one after the other, are one mutation.\<close>

lemma update_after_update:
  assumes ci: "\<And>n a cs cs'. p (Tag n a cs) = p (Tag n a cs')"
    and keep: "\<And>t. p t \<Longrightarrow> p (f t)"
  shows "update_first p (\<lambda>x. [f x]) soup = Some soup' \<Longrightarrow>
           update_first p (\<lambda>x. [g x]) soup' = update_first p (\<lambda>x. [g (f x)]) soup"
proof (induction soup arbitrary: soup' rule: node_list_induct)
  case Nil
  then show ?case by simp
next
  case (Tag n a cs rest)
  show ?case
  proof (cases "p (Tag n a cs)")
    case True
    with keep [of "Tag n a cs"] have "p (f (Tag n a cs))" by simp
    with Tag True show ?thesis
      by (cases "f (Tag n a cs)") auto
  next
    case False
    note np = this
    show ?thesis
    proof (cases "update_first p (\<lambda>x. [f x]) cs")
      case (Some cs')
      from update_first_SomeD [OF Some] obtain t where "find_first p cs = Some t" ..
      with Some Tag np ci [of n a cs' cs] show ?thesis
        by (auto simp: update_first_None split: option.splits)
    next
      case None
      then have "find_first p cs = None" by (simp add: update_first_None)
      then have "update_first p (\<lambda>x. [g x]) cs = None"
          "update_first p (\<lambda>x. [g (f x)]) cs = None"
        by (simp_all add: update_first_None)
      with None Tag np show ?thesis
        by (auto split: option.splits)
    qed
  qed
next
  case (String s rest)
  show ?case
  proof (cases "p (NavigableString s)")
    case True
    with keep [of "NavigableString s"] have "p (f (NavigableString s))" by simp
    with String True show ?thesis
      by (cases "f (NavigableString s)") auto
  next
    case False
    with String show ?thesis by auto
  qed
next
  case (Soup hs rest)
  show ?case
  proof (cases "p (Soup hs)")
    case True
    with keep [of "Soup hs"] have "p (f (Soup hs))" by simp
    with Soup True show ?thesis
      by (cases "f (Soup hs)") auto
  next
    case False
    with Soup show ?thesis by auto
  qed
qed

lemma has_id_children: "has_id i (Tag n a cs) = has_id i (Tag n a cs')"
  by simp

lemma has_id_kept: "has_id i t \<Longrightarrow> has_id i (append_child c (clear t))"
  by (cases t) simp_all

lemma clear_append_clear: "clear (append_child c (clear t)) = clear t"
  by (cases t) simp_all

lemma create2_never_raises: "\<exists>r. create_emotion_charts_html_2 d = Inr r"
  by (simp add: create2_eq)

text \<open>
  Claim C7. When the document has no tag with the identifier
  \<^verbatim>\<open>bar-chart-placeholder\<close>, the chart step returns the document as it is, no renderer
  is called and the assembly succeeds. When it has one, both renderers succeed, the
  assembly succeeds, and the first such tag keeps its name and attributes while its
  children become the parse of the absolute chart followed by the differential chart;
  apart from the children of that tag the document is unchanged.
\<close>

theorem charts_replace_placeholder_content:
  "(find_first (has_id ''bar-chart-placeholder'') soup = None \<longrightarrow>
      insert_charts d soup = Inr soup
      \<and> assemble logo d tip soup = Inr (remove_uygunluk tip (set_logo logo soup)))
   \<and> (\<forall>n a old. find_first (has_id ''bar-chart-placeholder'') soup = Some (Tag n a old) \<longrightarrow>
        (\<exists>abs_chart diff_chart soup'.
            create_emotion_charts_html d = Inr abs_chart
          \<and> create_emotion_charts_html_2 d = Inr diff_chart
          \<and> insert_charts d soup = Inr soup'
          \<and> find_first (has_id ''bar-chart-placeholder'') soup'
              = Some (Tag n a [Soup [abs_chart, diff_chart]])
          \<and> mutate_first (has_id ''bar-chart-placeholder'') clear soup'
              = mutate_first (has_id ''bar-chart-placeholder'') clear soup
          \<and> assemble logo d tip soup = Inr (remove_uygunluk tip (set_logo logo soup'))))"
proof (intro conjI impI allI)
  assume none: "find_first (has_id ''bar-chart-placeholder'') soup = None"
  then show "insert_charts d soup = Inr soup" by (simp add: insert_charts_def)
  then show "assemble logo d tip soup = Inr (remove_uygunluk tip (set_logo logo soup))"
    by (simp add: assemble_def sbind_Inr)
next
  fix n a old
  let ?p = "has_id ''bar-chart-placeholder''"
  assume found: "find_first ?p soup = Some (Tag n a old)"
  obtain abs_chart where a: "create_emotion_charts_html d = Inr abs_chart"
    using create_never_raises [of d] by blast
  obtain diff_chart where b: "create_emotion_charts_html_2 d = Inr diff_chart"
    using create2_never_raises [of d] by blast
  let ?f = "\<lambda>t. append_child (Soup [abs_chart, diff_chart]) (clear t)"
  let ?soup' = "mutate_first ?p ?f soup"
  have ins: "insert_charts d soup = Inr ?soup'"
    by (simp add: insert_charts_def found a b sbind_Inr)
  from found have "update_first ?p (\<lambda>x. [?f x]) soup \<noteq> None"
    by (simp add: update_first_None)
  then obtain s' where upd: "update_first ?p (\<lambda>x. [?f x]) soup = Some s'" by blast
  then have s': "?soup' = s'" by (simp add: mutate_first_def)
  have "find_first ?p s' = map_option ?f (find_first ?p soup)"
    by (rule find_after_update [OF has_id_children has_id_kept upd])
  then have fnd: "find_first ?p ?soup' = Some (Tag n a [Soup [abs_chart, diff_chart]])"
    by (simp add: s' found)
  have "update_first ?p (\<lambda>x. [clear x]) s' = update_first ?p (\<lambda>x. [clear (?f x)]) soup"
    by (rule update_after_update [OF has_id_children has_id_kept upd])
  then have "update_first ?p (\<lambda>x. [clear x]) s' = update_first ?p (\<lambda>x. [clear x]) soup"
    by (simp only: clear_append_clear)
  moreover from found have "update_first ?p (\<lambda>x. [clear x]) soup \<noteq> None"
    by (simp add: update_first_None)
  ultimately have "mutate_first ?p clear s' = mutate_first ?p clear soup"
    by (auto simp: mutate_first_def)
  then have frame: "mutate_first ?p clear ?soup' = mutate_first ?p clear soup"
    by (simp only: s')
  have asm: "assemble logo d tip soup = Inr (remove_uygunluk tip (set_logo logo ?soup'))"
    by (simp add: assemble_def ins sbind_Inr)
  show "\<exists>abs_chart diff_chart soup'.
            create_emotion_charts_html d = Inr abs_chart
          \<and> create_emotion_charts_html_2 d = Inr diff_chart
          \<and> insert_charts d soup = Inr soup'
          \<and> find_first ?p soup' = Some (Tag n a [Soup [abs_chart, diff_chart]])
          \<and> mutate_first ?p clear soup' = mutate_first ?p clear soup
          \<and> assemble logo d tip soup = Inr (remove_uygunluk tip (set_logo logo soup'))"
    apply (rule exI [of _ abs_chart])
    apply (rule exI [of _ diff_chart])
    apply (rule exI [of _ ?soup'])
    apply (intro conjI)
    apply (rule a b ins fnd frame asm)+
    done
qed

lemma template_placeholder:
  "find_first (has_id ''bar-chart-placeholder'') template_document
     = Some (Tag ''div'' [(''id'', ''bar-chart-placeholder'')] [NavigableString ''eski''])"
  by (simp add: template_document_def)

lemma no_placeholder:
  "find_first (has_id ''bar-chart-placeholder'') document_without_chart = None"
  by (simp add: document_without_chart_def)

theorem charts_replace_placeholder_content_witness:
  "find_first (has_id ''bar-chart-placeholder'') document_without_chart = None
   \<and> insert_charts sample_record document_without_chart = Inr document_without_chart
   \<and> find_first (has_id ''bar-chart-placeholder'') template_document
       = Some (Tag ''div'' [(''id'', ''bar-chart-placeholder'')] [NavigableString ''eski''])
   \<and> (\<exists>abs_chart diff_chart soup'.
            create_emotion_charts_html sample_record = Inr abs_chart
          \<and> create_emotion_charts_html_2 sample_record = Inr diff_chart
          \<and> insert_charts sample_record template_document = Inr soup'
          \<and> find_first (has_id ''bar-chart-placeholder'') soup'
              = Some (Tag ''div'' [(''id'', ''bar-chart-placeholder'')]
                        [Soup [abs_chart, diff_chart]]))"
proof -
  have a: "insert_charts sample_record document_without_chart = Inr document_without_chart"
    using charts_replace_placeholder_content [of document_without_chart sample_record]
      no_placeholder by blast
  have b: "\<exists>abs_chart diff_chart soup'.
            create_emotion_charts_html sample_record = Inr abs_chart
          \<and> create_emotion_charts_html_2 sample_record = Inr diff_chart
          \<and> insert_charts sample_record template_document = Inr soup'
          \<and> find_first (has_id ''bar-chart-placeholder'') soup'
              = Some (Tag ''div'' [(''id'', ''bar-chart-placeholder'')]
                        [Soup [abs_chart, diff_chart]])"
    using charts_replace_placeholder_content [of template_document sample_record]
      template_placeholder by blast
  from no_placeholder a template_placeholder b show ?thesis by (intro conjI)
qed

lemma find_text_iff: "find_first (is_text s) soup = None \<longleftrightarrow> s \<notin> set (strings_of soup)"
  by (induction soup rule: node_list_induct) (auto split: option.splits)

lemma strings_of_extract:
  "update_first (is_text s) (\<lambda>x. []) soup = Some soup' \<Longrightarrow>
     strings_of soup' = remove1 s (strings_of soup)"
proof (induction soup arbitrary: soup' rule: node_list_induct)
  case Nil
  then show ?case by simp
next
  case (Tag n a cs rest)
  show ?case
  proof (cases "update_first (is_text s) (\<lambda>x. []) cs")
    case None
    then have "s \<notin> set (strings_of cs)"
      by (simp add: update_first_None find_text_iff)
    with None Tag show ?thesis by (auto simp: remove1_append)
  next
    case (Some cs')
    from update_first_SomeD [OF Some] have "s \<in> set (strings_of cs)"
      using find_text_iff [of s cs] by auto
    with Some Tag show ?thesis by (auto simp: remove1_append)
  qed
next
  case (String t rest)
  then show ?case by (auto split: if_splits)
next
  case (Soup hs rest)
  then show ?case by auto
qed

text \<open>What the removal does: the first text node that is the token goes, nothing else.\<close>

lemma remove_uygunluk_strings:
  "strings_of (remove_uygunluk tip soup)
     = (if tip = 1 then remove1 uygunluk_token (strings_of soup) else strings_of soup)"
proof (cases "tip = 1")
  case False
  then show ?thesis by (simp add: remove_uygunluk_def)
next
  case True
  show ?thesis
  proof (cases "update_first (is_text uygunluk_token) (\<lambda>x. []) soup")
    case None
    then have "uygunluk_token \<notin> set (strings_of soup)"
      by (simp add: update_first_None find_text_iff)
    with None True show ?thesis
      by (simp add: remove_uygunluk_def remove1_idem split: option.splits)
  next
    case (Some soup')
    from update_first_SomeD [OF Some] obtain t
      where "find_first (is_text uygunluk_token) soup = Some t" ..
    with Some True strings_of_extract [OF Some] show ?thesis
      by (simp add: remove_uygunluk_def)
  qed
qed

lemma remove_uygunluk_other_flag: "tip \<noteq> 1 \<Longrightarrow> remove_uygunluk tip soup = soup"
  by (simp add: remove_uygunluk_def)

text \<open>
  Claim C8 on the document of the template, with the flag 1. The token stands on a line of
  its own, so its text node holds the line breaks and the indentation as well and is not
  equal to the token: \<^verbatim>\<open>find(text=...)\<close> finds nothing and the token stays in the
  assembled document.
\<close>

theorem token_line_survives_flag_1:
  "remove_uygunluk 1 template_document = template_document
   \<and> (\<exists>soup'. assemble [] sample_record 1 template_document = Inr soup'
         \<and> strings_of soup' = [''yorum'', token_line])
   \<and> token_line = [CHR 0x0A, CHR 0x0A] @ ''    '' @ uygunluk_token @ [CHR 0x0A]"
proof -
  have tl: "token_line \<noteq> uygunluk_token"
    by (simp add: token_line_def uygunluk_token_def)
  have ot: "''yorum'' \<noteq> uygunluk_token" "''eski'' \<noteq> uygunluk_token"
    by (simp_all add: uygunluk_token_def)
  have a: "remove_uygunluk 1 template_document = template_document"
    using tl ot by (simp add: remove_uygunluk_def template_document_def)
  obtain abs_chart where ac: "create_emotion_charts_html sample_record = Inr abs_chart"
    using create_never_raises [of sample_record] by blast
  obtain diff_chart where dc: "create_emotion_charts_html_2 sample_record = Inr diff_chart"
    using create2_never_raises [of sample_record] by blast
  have ins: "insert_charts sample_record template_document =
      Inr [Tag ''html'' []
        [Tag ''body'' []
           [Tag ''div'' [(''class'', ''page-header-logo''), (''id'', ''header_logo'')]
              [Tag ''img'' [(''src'', ''{{logo_src}}''), (''alt'', ''Logo'')] []],
            Tag ''div'' [(''class'', ''watermark-image-container''),
                         (''id'', ''watermark-placeholder'')] [],
            Tag ''div'' [(''class'', ''section'')]
              [Tag ''div'' [(''id'', ''bar-chart-placeholder'')] [Soup [abs_chart, diff_chart]],
               Tag ''p'' [] [NavigableString ''yorum'']],
            NavigableString token_line]]]"
    by (simp add: insert_charts_def template_document_def ac dc sbind_Inr mutate_first_def)
  have b: "\<exists>soup'. assemble [] sample_record 1 template_document = Inr soup'
         \<and> strings_of soup' = [''yorum'', token_line]"
    using tl ot by (simp add: assemble_def ins sbind_Inr set_logo_def remove_uygunluk_def)
  have c: "token_line = [CHR 0x0A, CHR 0x0A] @ ''    '' @ uygunluk_token @ [CHR 0x0A]"
    by (simp add: token_line_def uygunluk_token_def)
  from a b c show ?thesis by (intro conjI)
qed

text \<open>Any required column that is missing is answered with status 500.\<close>

lemma missing_required_column_status:
  assumes "endswith filename ''.csv''"
    and "\<not> list_all (\<lambda>col. col \<in> set (columns df)) required_columns"
  shows "generate_report int_str rest filename (Inr df) =
     Inl (HTTPException 500 (ServerError (HTTPException 400
       (MissingColumns (filter (\<lambda>col. col \<notin> set (columns df)) required_columns)))))"
  using assms by (simp add: generate_report_def generate_report_body_def sbind_Inr)

text \<open>
  Claim C2 on two uploads named \<^verbatim>\<open>rapor.csv\<close>. The first has the fifteen columns that
  the endpoint checks and none of the average columns: the check passes, the first average
  that is read raises \<^verbatim>\<open>KeyError\<close>, and the answer is the status 500 of the general
  handler. The second lacks the checked column \<^verbatim>\<open>tip\<close>: the \<^verbatim>\<open>HTTPException\<close> with
  status 400 is raised inside the \<^verbatim>\<open>try\<close>, the general handler catches it, and the answer
  is status 500 again.
\<close>

theorem missing_columns_answered_with_500:
  "generate_report int_str rest ''rapor.csv'' (Inr df_without_averages)
     = Inl (HTTPException 500 (ServerError (Raised (KeyError ''avg_duygu_mutlu_%''))))
   \<and> generate_report int_str rest ''rapor.csv'' (Inr df_without_tip)
     = Inl (HTTPException 500 (ServerError (HTTPException 400 (MissingColumns [''tip'']))))"
proof -
  have e: "endswith ''rapor.csv'' ''.csv''" by (simp add: endswith_def)
  have a: "generate_report int_str rest ''rapor.csv'' (Inr df_without_averages)
     = Inl (HTTPException 500 (ServerError (Raised (KeyError ''avg_duygu_mutlu_%''))))"
    by (simp add: generate_report_def generate_report_body_def e df_without_averages_def
          required_columns_def current_row_entries_def sbind_Inr sbind_Inl row_item_def lift_py_def)
  have b: "generate_report int_str rest ''rapor.csv'' (Inr df_without_tip)
     = Inl (HTTPException 500 (ServerError (HTTPException 400 (MissingColumns [''tip'']))))"
    by (simp add: generate_report_def generate_report_body_def e df_without_tip_def
          required_columns_def sbind_Inr)
  from a b show ?thesis by (intro conjI)
qed

end
